theory Spec2Isabelle
  imports Complex_Main
begin

section \<open>Athena: the ledger client (FraxService) and the agent orchestrator (AthenaAgent)\<close>

text \<open>
  A shallow embedding of \<^verbatim>\<open>src/lib/frax-service.ts\<close> (class FraxService) and of the
  agent class AthenaAgent. A JavaScript \<^verbatim>\<open>number\<close> that holds an amount is a \<open>real\<close>
  (rounding of doubles is not modelled), a time stamp is a \<open>nat\<close>, a string is a
  \<open>string\<close> whose non-ASCII characters are written as their UTF-8 bytes. An
  \<^verbatim>\<open>async\<close> function returns \<open>error + 'a\<close>: \<open>Inl e\<close> is a rejected promise (a throw
  that leaves the function), \<open>Inr v\<close> a fulfilled one.
\<close>

subsection \<open>Errors, strings, numbers\<close>

datatype error = Error (message: string)

text \<open>Reading the property \<open>p\<close> of \<^verbatim>\<open>null\<close> (a non-null assertion \<^verbatim>\<open>x!\<close> on a null field);
  the message is the one of the V8 engine.\<close>

definition TypeError_null :: "string \<Rightarrow> error" where
  "TypeError_null p =
     Error (''Cannot read properties of null (reading '' @ [CHR 0x27] @ p @ [CHR 0x27] @ '')'')"

text \<open>\<^verbatim>\<open>s.slice(0, n)\<close> on a string of one-byte characters.\<close>

definition slice0 :: "nat \<Rightarrow> string \<Rightarrow> string" where
  "slice0 n s = take n s"

definition hexdigits :: string where
  "hexdigits = ''0123456789abcdef''"

text \<open>\<^verbatim>\<open>n.toString(16)\<close> and \<^verbatim>\<open>n.toString()\<close> for a non-negative integer.\<close>

fun toString16 :: "nat \<Rightarrow> string" where
  "toString16 n = (if n < 16 then [hexdigits ! n] else toString16 (n div 16) @ [hexdigits ! (n mod 16)])"

fun toString10 :: "nat \<Rightarrow> string" where
  "toString10 n = (if n < 10 then [hexdigits ! n] else toString10 (n div 10) @ [hexdigits ! (n mod 10)])"

declare toString16.simps [simp del]
declare toString10.simps [simp del]

text \<open>\<^verbatim>\<open>parseFloat(formatUnits(x, d))\<close>: a token amount in base units read in human units.\<close>

definition fromUnits :: "nat \<Rightarrow> nat \<Rightarrow> real" where
  "fromUnits x d = real x / 10 ^ d"

text \<open>The three symbols of the SOS log lines, as UTF-8 bytes:
  the warning sign (U+26A0 U+FE0F), the check mark (U+2705), the cross mark (U+274C).\<close>

definition warning_sign :: string where
  "warning_sign = [CHR 0xE2, CHR 0x9A, CHR 0xA0, CHR 0xEF, CHR 0xB8, CHR 0x8F]"

definition check_mark :: string where
  "check_mark = [CHR 0xE2, CHR 0x9C, CHR 0x85]"

definition cross_mark :: string where
  "cross_mark = [CHR 0xE2, CHR 0x9D, CHR 0x8C]"

subsection \<open>Types of the ledger client\<close>

record NetworkConfig =
  name :: string
  rpcUrl :: string
  chainId :: nat
  sFraxAddress :: string
  fraxAddress :: string
  usdcAddress :: string
  explorerUrl :: string

definition FRAXTAL_MAINNET :: NetworkConfig where
  "FRAXTAL_MAINNET = \<lparr> name = ''Fraxtal'', rpcUrl = ''https://rpc.frax.com'', chainId = 252,
     sFraxAddress = ''0xfc00000000000000000000000000000000000008'',
     fraxAddress = ''0xFc00000000000000000000000000000000000001'',
     usdcAddress = ''0xDcc0F2D8F90FDe85b10aC1c8Ab57dc0AE946A543'',
     explorerUrl = ''https://fraxscan.com'' \<rparr>"

record VaultState =
  sFraxBalance :: real
  sFraxValueInFrax :: real
  fraxBalance :: real
  usdcBalance :: real
  totalValueUsd :: real
  apy :: real
  isOnline :: bool
  network :: string

record TransactionResult =
  success :: bool
  txHash :: string
  tx_message :: string
  tx_explorerUrl :: "string option"

text \<open>SOSResult; its \<^verbatim>\<open>success\<close> field is \<open>sos_success\<close> here, since a record field
  name is a constant of the theory.\<close>

record SOSResult =
  sos_success :: bool
  liquidatedAmount :: real
  transferredAmount :: real
  destinationAddress :: string
  txHashes :: "string list"
  logs :: "string list"

text \<open>The private fields of FraxService. A contract or wallet object is the address it
  was built with; \<open>None\<close> is \<^verbatim>\<open>null\<close>.\<close>

record FraxService =
  provider :: "string option"
  wallet :: "string option"
  sFraxContract :: "string option"
  fraxContract :: "string option"
  usdcContract :: "string option"
  activeNetwork :: NetworkConfig
  isConnected :: bool
  fallbackStartTime :: nat
  fallbackBaseBalance :: real

text \<open>
  What lies outside the program during one operation: the answers of the chain to each
  call (a call that rejects or throws is \<open>Inl\<close>; a sent transaction answers with the hash
  of its receipt), the ethers function \<^verbatim>\<open>parseUnits\<close>, which throws on a string it does not
  accept, the renderings of a number (\<^verbatim>\<open>toString()\<close>, \<^verbatim>\<open>toFixed(2)\<close>), and the random
  sources: \<open>randomUUID k\<close> is the \<open>k\<close>-th answer of \<^verbatim>\<open>crypto.randomUUID()\<close> and
  \<open>randomDigit k\<close> the \<open>k\<close>-th value of \<^verbatim>\<open>Math.floor(Math.random() * 16)\<close>.
\<close>

record World =
  sFrax_balanceOf :: "string \<Rightarrow> error + nat"
  frax_balanceOf :: "string \<Rightarrow> error + nat"
  usdc_balanceOf :: "string \<Rightarrow> error + nat"
  sFrax_convertToAssets :: "nat \<Rightarrow> error + nat"
  sFrax_redeem :: "nat \<Rightarrow> string \<Rightarrow> string \<Rightarrow> error + string"
  sFrax_deposit :: "nat \<Rightarrow> string \<Rightarrow> error + string"
  frax_approve :: "string \<Rightarrow> nat \<Rightarrow> error + unit"
  frax_transfer :: "string \<Rightarrow> nat \<Rightarrow> error + string"
  wallet_sendTransaction :: "string \<Rightarrow> string \<Rightarrow> error + string"
  parseUnits :: "string \<Rightarrow> nat \<Rightarrow> error + nat"
  numToString :: "real \<Rightarrow> string"
  toFixed2 :: "real \<Rightarrow> string"
  randomUUID :: "nat \<Rightarrow> error + string"
  randomDigit :: "nat \<Rightarrow> nat"

subsection \<open>getVaultState\<close>

definition getSimulatedVaultState :: VaultState where
  "getSimulatedVaultState = \<lparr> sFraxBalance = 0, sFraxValueInFrax = 0, fraxBalance = 0,
     usdcBalance = 0, totalValueUsd = 0, apy = 54 / 10, isOnline = False,
     network = ''Not Connected'' \<rparr>"

text \<open>The body of the \<^verbatim>\<open>try\<close> of getVaultState: three balance queries, the conversion
  of the shares, the scaling by 18, 18 and 6 decimals.\<close>

definition liveVaultRead :: "FraxService \<Rightarrow> World \<Rightarrow> string \<Rightarrow> error + VaultState" where
  "liveVaultRead svc w address =
     (case sFrax_balanceOf w address of Inl e \<Rightarrow> Inl e | Inr sFraxBal \<Rightarrow>
      (case fraxContract svc of None \<Rightarrow> Inl (TypeError_null ''balanceOf'') | Some _ \<Rightarrow>
      (case frax_balanceOf w address of Inl e \<Rightarrow> Inl e | Inr fraxBal \<Rightarrow>
      (case usdcContract svc of None \<Rightarrow> Inl (TypeError_null ''balanceOf'') | Some _ \<Rightarrow>
      (case usdc_balanceOf w address of Inl e \<Rightarrow> Inl e | Inr usdcBal \<Rightarrow>
      (case sFrax_convertToAssets w sFraxBal of Inl e \<Rightarrow> Inl e | Inr sFraxValue \<Rightarrow>
         Inr \<lparr> sFraxBalance = fromUnits sFraxBal 18,
               sFraxValueInFrax = fromUnits sFraxValue 18,
               fraxBalance = fromUnits fraxBal 18,
               usdcBalance = fromUnits usdcBal 6,
               totalValueUsd = fromUnits sFraxValue 18 + fromUnits fraxBal 18 + fromUnits usdcBal 6,
               apy = 54 / 10, isOnline = True, network = name (activeNetwork svc) \<rparr>))))))"

definition getVaultState :: "FraxService \<Rightarrow> World \<Rightarrow> error + VaultState" where
  "getVaultState svc w =
     (case (isConnected svc, wallet svc, sFraxContract svc) of
        (True, Some address, Some _) \<Rightarrow>
          (case liveVaultRead svc w address of
             Inr v \<Rightarrow> Inr v
           | Inl e \<Rightarrow> Inr getSimulatedVaultState)
      | _ \<Rightarrow> Inr getSimulatedVaultState)"

subsection \<open>Deposit, redeem, transfer\<close>

text \<open>The simulated transaction hash of deposit, redeem, transfer and evidence storage:
  \<^verbatim>\<open>'0x' + Array(64).fill(0).map(() => Math.floor(Math.random() * 16).toString(16)).join('')\<close>.\<close>

definition fakeTxHash :: "World \<Rightarrow> string" where
  "fakeTxHash w = ''0x'' @ concat (map (\<lambda>k. toString16 (randomDigit w k)) [0..<64])"

definition depositLive :: "FraxService \<Rightarrow> World \<Rightarrow> real \<Rightarrow> error + string" where
  "depositLive svc w amountFrax =
     (case parseUnits w (numToString w amountFrax) 18 of Inl e \<Rightarrow> Inl e | Inr amount \<Rightarrow>
      (case frax_approve w (sFraxAddress (activeNetwork svc)) amount of Inl e \<Rightarrow> Inl e | Inr _ \<Rightarrow>
      (case wallet svc of None \<Rightarrow> Inl (TypeError_null ''address'') | Some address \<Rightarrow>
         sFrax_deposit w amount address)))"

definition depositToVault ::
  "FraxService \<Rightarrow> World \<Rightarrow> real \<Rightarrow> (error + TransactionResult) \<times> FraxService" where
  "depositToVault svc w amountFrax =
     (if isConnected svc \<and> sFraxContract svc \<noteq> None \<and> fraxContract svc \<noteq> None then
        (case depositLive svc w amountFrax of
           Inr h \<Rightarrow>
             (Inr \<lparr> success = True, txHash = h,
                    tx_message = ''Deposited '' @ numToString w amountFrax @ '' FRAX into sFRAX vault'',
                    tx_explorerUrl = Some (explorerUrl (activeNetwork svc) @ ''/tx/'' @ h) \<rparr>, svc)
         | Inl e \<Rightarrow>
             (Inr \<lparr> success = False, txHash = [],
                    tx_message = ''Deposit failed: '' @ message e,
                    tx_explorerUrl = None \<rparr>, svc))
      else
        (Inr \<lparr> success = True, txHash = fakeTxHash w,
               tx_message = ''[DEMO] Deposited '' @ numToString w amountFrax @ '' FRAX into sFRAX vault'',
               tx_explorerUrl = None \<rparr>,
         svc\<lparr> fallbackBaseBalance := fallbackBaseBalance svc + amountFrax \<rparr>))"

definition redeemLive :: "FraxService \<Rightarrow> World \<Rightarrow> real \<Rightarrow> error + string" where
  "redeemLive svc w amountShares =
     (case parseUnits w (numToString w amountShares) 18 of Inl e \<Rightarrow> Inl e | Inr shares \<Rightarrow>
      (case wallet svc of None \<Rightarrow> Inl (TypeError_null ''address'') | Some address \<Rightarrow>
         sFrax_redeem w shares address address))"

definition redeemFromVault ::
  "FraxService \<Rightarrow> World \<Rightarrow> real \<Rightarrow> (error + TransactionResult) \<times> FraxService" where
  "redeemFromVault svc w amountShares =
     (if isConnected svc \<and> sFraxContract svc \<noteq> None then
        (case redeemLive svc w amountShares of
           Inr h \<Rightarrow>
             (Inr \<lparr> success = True, txHash = h,
                    tx_message = ''Redeemed '' @ numToString w amountShares @ '' sFRAX shares'',
                    tx_explorerUrl = Some (explorerUrl (activeNetwork svc) @ ''/tx/'' @ h) \<rparr>, svc)
         | Inl e \<Rightarrow>
             (Inr \<lparr> success = False, txHash = [],
                    tx_message = ''Redeem failed: '' @ message e,
                    tx_explorerUrl = None \<rparr>, svc))
      else
        (Inr \<lparr> success = True, txHash = fakeTxHash w,
               tx_message = ''[DEMO] Redeemed '' @ numToString w amountShares @ '' sFRAX to FRAX'',
               tx_explorerUrl = None \<rparr>, svc))"

definition transferLive :: "World \<Rightarrow> string \<Rightarrow> real \<Rightarrow> error + string" where
  "transferLive w toAddress amount =
     (case parseUnits w (numToString w amount) 18 of Inl e \<Rightarrow> Inl e | Inr amountWei \<Rightarrow>
        frax_transfer w toAddress amountWei)"

definition transferFrax ::
  "FraxService \<Rightarrow> World \<Rightarrow> string \<Rightarrow> real \<Rightarrow> (error + TransactionResult) \<times> FraxService" where
  "transferFrax svc w toAddress amount =
     (if isConnected svc \<and> fraxContract svc \<noteq> None then
        (case transferLive w toAddress amount of
           Inr h \<Rightarrow>
             (Inr \<lparr> success = True, txHash = h,
                    tx_message = ''Transferred '' @ numToString w amount @ '' FRAX to ''
                                 @ slice0 8 toAddress @ ''...'',
                    tx_explorerUrl = Some (explorerUrl (activeNetwork svc) @ ''/tx/'' @ h) \<rparr>, svc)
         | Inl e \<Rightarrow>
             (Inr \<lparr> success = False, txHash = [],
                    tx_message = ''Transfer failed: '' @ message e,
                    tx_explorerUrl = None \<rparr>, svc))
      else
        (Inr \<lparr> success = True, txHash = fakeTxHash w,
               tx_message = ''[DEMO] Transferred '' @ numToString w amount @ '' FRAX to ''
                            @ slice0 8 toAddress @ ''...'',
               tx_explorerUrl = None \<rparr>, svc))"

subsection \<open>The SOS protocol\<close>

text \<open>The two arrays \<^verbatim>\<open>logs\<close> and \<^verbatim>\<open>txHashes\<close> that triggerSOS declares before its
  \<^verbatim>\<open>try\<close> and fills inside it, and the number of calls of \<^verbatim>\<open>crypto.randomUUID()\<close> made
  so far.\<close>

record sos_acc =
  acc_logs :: "string list"
  acc_txs :: "string list"
  acc_uuid :: nat

definition push_log :: "string \<Rightarrow> sos_acc \<Rightarrow> sos_acc" where
  "push_log l a = a\<lparr> acc_logs := acc_logs a @ [l] \<rparr>"

definition push_tx :: "string \<Rightarrow> sos_acc \<Rightarrow> sos_acc" where
  "push_tx h a = a\<lparr> acc_txs := acc_txs a @ [h] \<rparr>"

text \<open>\<^verbatim>\<open>'0x' + crypto.randomUUID().replace(/-/g, '').slice(0, 64)\<close>\<close>

definition fakeTxOfUUID :: "string \<Rightarrow> string" where
  "fakeTxOfUUID u = ''0x'' @ slice0 64 (filter (\<lambda>c. c \<noteq> CHR ''-'') u)"

text \<open>Step 2 of the \<^verbatim>\<open>try\<close>: liquidate the staked shares.\<close>

definition sos_liquidate ::
  "FraxService \<Rightarrow> World \<Rightarrow> VaultState \<Rightarrow> sos_acc \<Rightarrow> (error + unit) \<times> sos_acc" where
  "sos_liquidate svc w vaultState a =
     (if sFraxBalance vaultState > 0 then
        (let a1 = push_log ''Liquidating sFRAX positions...'' a in
         if isConnected svc \<and> sFraxContract svc \<noteq> None then
           (case parseUnits w (numToString w (sFraxBalance vaultState)) 18 of
              Inl e \<Rightarrow> (Inl e, a1)
            | Inr shares \<Rightarrow>
               (case wallet svc of
                  None \<Rightarrow> (Inl (TypeError_null ''address''), a1)
                | Some address \<Rightarrow>
                   (case sFrax_redeem w shares address address of
                      Inl e \<Rightarrow> (Inl e, a1)
                    | Inr h \<Rightarrow>
                       (Inr (), push_log (''Liquidation TX: '' @ slice0 10 h @ ''...'')
                                  (push_tx h a1)))))
         else
           (case randomUUID w (acc_uuid a1) of
              Inl e \<Rightarrow> (Inl e, a1)
            | Inr u \<Rightarrow>
               (Inr (), push_log (''[DEMO] Liquidation TX: '' @ slice0 10 (fakeTxOfUUID u) @ ''...'')
                          (push_tx (fakeTxOfUUID u) (a1\<lparr> acc_uuid := Suc (acc_uuid a1) \<rparr>)))))
      else (Inr (), a))"

text \<open>Step 3 of the \<^verbatim>\<open>try\<close>: transfer the total to the safe destination.\<close>

definition sos_transfer ::
  "FraxService \<Rightarrow> World \<Rightarrow> string \<Rightarrow> real \<Rightarrow> sos_acc \<Rightarrow> (error + unit) \<times> sos_acc" where
  "sos_transfer svc w destination totalToTransfer a =
     (if isConnected svc \<and> fraxContract svc \<noteq> None then
        (case parseUnits w (numToString w totalToTransfer) 18 of
           Inl e \<Rightarrow> (Inl e, a)
         | Inr amount \<Rightarrow>
            (case frax_transfer w destination amount of
               Inl e \<Rightarrow> (Inl e, a)
             | Inr h \<Rightarrow>
                (Inr (), push_log (''Transfer TX: '' @ slice0 10 h @ ''...'') (push_tx h a))))
      else
        (case randomUUID w (acc_uuid a) of
           Inl e \<Rightarrow> (Inl e, a)
         | Inr u \<Rightarrow>
            (Inr (), push_log (''[DEMO] Transfer TX: '' @ slice0 10 (fakeTxOfUUID u) @ ''...'')
                       (push_tx (fakeTxOfUUID u) (a\<lparr> acc_uuid := Suc (acc_uuid a) \<rparr>)))))"

text \<open>The body of the \<^verbatim>\<open>try\<close>: it ends with the vault state it read and the total it
  transferred, or with the error thrown; in both cases with the arrays as they are then.\<close>

definition sos_try ::
  "FraxService \<Rightarrow> World \<Rightarrow> string \<Rightarrow> sos_acc \<Rightarrow> (error + VaultState \<times> real) \<times> sos_acc" where
  "sos_try svc w destination a0 =
     (case getVaultState svc w of
        Inl e \<Rightarrow> (Inl e, a0)
      | Inr vaultState \<Rightarrow>
         (let a1 = push_log (''Balance detected: '' @ toFixed2 w (sFraxBalance vaultState) @ '' sFRAX'') a0
          in case sos_liquidate svc w vaultState a1 of
               (Inl e, a2) \<Rightarrow> (Inl e, a2)
             | (Inr _, a2) \<Rightarrow>
                (let totalToTransfer = sFraxValueInFrax vaultState + fraxBalance vaultState;
                     a3 = push_log (''Transferring '' @ toFixed2 w totalToTransfer
                                     @ '' FRAX to safe destination...'') a2
                 in case sos_transfer svc w destination totalToTransfer a3 of
                      (Inl e, a4) \<Rightarrow> (Inl e, a4)
                    | (Inr _, a4) \<Rightarrow>
                       (Inr (vaultState, totalToTransfer),
                        push_log (check_mark @ '' SOS Protocol Complete. Funds secured.'') a4))))"

definition sos_start :: sos_acc where
  "sos_start = \<lparr> acc_logs = [warning_sign @ '' INITIATING SOS PROTOCOL...''], acc_txs = [],
     acc_uuid = 0 \<rparr>"

definition triggerSOS ::
  "FraxService \<Rightarrow> World \<Rightarrow> string \<Rightarrow> (error + SOSResult) \<times> FraxService" where
  "triggerSOS svc w destination =
     (case sos_try svc w destination sos_start of
        (Inr (vaultState, totalToTransfer), a) \<Rightarrow>
          (Inr \<lparr> sos_success = True, liquidatedAmount = sFraxBalance vaultState,
                 transferredAmount = totalToTransfer, destinationAddress = destination,
                 txHashes = acc_txs a, logs = acc_logs a \<rparr>,
           svc\<lparr> fallbackBaseBalance := 0 \<rparr>)
      | (Inl e, a) \<Rightarrow>
          (Inr \<lparr> sos_success = False, liquidatedAmount = 0, transferredAmount = 0,
                 destinationAddress = destination, txHashes = acc_txs a,
                 logs = acc_logs a @ [cross_mark @ '' Error: '' @ message e] \<rparr>,
           svc))"



subsection \<open>Evidence storage\<close>

definition storeEvidenceHash ::
  "FraxService \<Rightarrow> World \<Rightarrow> string \<Rightarrow> string option \<Rightarrow> error + TransactionResult" where
  "storeEvidenceHash svc w hash metadata =
     (let data = ''ATHENA_EVIDENCE:'' @ hash
                 @ (case metadata of None \<Rightarrow> [] | Some m \<Rightarrow> if m = [] then [] else '':'' @ m)
      in case (isConnected svc, wallet svc, provider svc) of
           (True, Some address, Some _) \<Rightarrow>
             (case wallet_sendTransaction w address data of
                Inr h \<Rightarrow>
                  Inr \<lparr> success = True, txHash = h,
                        tx_message = ''Evidence hash stored on-chain'',
                        tx_explorerUrl = Some (explorerUrl (activeNetwork svc) @ ''/tx/'' @ h) \<rparr>
              | Inl e \<Rightarrow>
                  Inr \<lparr> success = False, txHash = [],
                        tx_message = ''Failed to store evidence: '' @ message e,
                        tx_explorerUrl = None \<rparr>)
         | _ \<Rightarrow>
             Inr \<lparr> success = True, txHash = fakeTxHash w,
                   tx_message = ''[DEMO] Evidence hash recorded (simulated)'',
                   tx_explorerUrl = None \<rparr>)"

definition getAddress :: "FraxService \<Rightarrow> string" where
  "getAddress svc = (case wallet svc of Some address \<Rightarrow> address
                     | None \<Rightarrow> ''0x742d35Cc6634C0532925a3b844Bc454e4438f44e'')"

subsection \<open>Types of the agent orchestrator\<close>

datatype case_status = ACTIVE | EVACUATED | ARCHIVED

record AthenaCase =
  caseId :: string
  depositAddress :: string
  createdAt :: nat
  status :: case_status

datatype evidence_type = TEXT | IMAGE | AUDIO | VIDEO

datatype evidence_status = PENDING | ON_CHAIN | FAILED

record Metadata =
  category :: "string option"
  md_riskLevel :: "real option"
  summary :: "string option"

text \<open>EvidenceRecord; \<open>None\<close> in \<open>ev_txHash\<close> is an absent \<^verbatim>\<open>txHash\<close>.\<close>

record EvidenceRecord =
  ev_id :: string
  ev_hash :: string
  ev_type :: evidence_type
  timestamp :: nat
  ev_txHash :: "string option"
  ev_status :: evidence_status
  metadata :: "Metadata option"

record FreedomGoal =
  targetAmount :: real
  currentAmount :: real
  currency :: string

record Strategy =
  step1 :: string
  step2 :: string
  step3 :: string

record EscapePlan =
  isReady :: bool
  freedomGoal :: FreedomGoal
  strategy :: Strategy
  plan_riskLevel :: real
  plan_destination :: string

record BudgetParams =
  dependents :: real
  destination :: string
  hasOwnMoney :: bool
  riskLevel :: real

record YieldOptimizationResult =
  y_success :: bool
  previousBalance :: real
  newBalance :: real
  y_apy :: real
  projectedMonthlyYield :: real
  y_message :: string

text \<open>AgentState. Its \<^verbatim>\<open>case\<close> field holds a reference to a case object (or \<^verbatim>\<open>null\<close>):
  triggerSOS writes the status through that reference, and createAnonymousCase hands the
  same object to its caller.\<close>

record AgentState =
  case_ref :: "nat option"
  evidence :: "EvidenceRecord list"
  escapePlan :: "EscapePlan option"
  vaultState :: "VaultState option"
  lastUpdated :: nat

text \<open>What \<^verbatim>\<open>JSON.stringify(this.state)\<close> writes: the state with the case by value.\<close>

record StateJSON =
  json_case :: "AthenaCase option"
  json_evidence :: "EvidenceRecord list"
  json_escapePlan :: "EscapePlan option"
  json_vaultState :: "VaultState option"
  json_lastUpdated :: nat

datatype stored = SavedState StateJSON | OtherItem string

text \<open>The browser's \<^verbatim>\<open>localStorage\<close>: it may be undefined (\<open>ls_defined\<close> false), and its
  methods may throw (\<open>ls_throws\<close>: access denied, quota exceeded).\<close>

record LocalStorage =
  ls_defined :: bool
  ls_throws :: bool
  ls_items :: "string \<rightharpoonup> stored"

definition setItem :: "LocalStorage \<Rightarrow> string \<Rightarrow> stored \<Rightarrow> error + LocalStorage" where
  "setItem ls k v = (if ls_throws ls then Inl (Error ''localStorage.setItem failed'')
                     else Inr (ls\<lparr> ls_items := (ls_items ls)(k \<mapsto> v) \<rparr>))"

definition removeItem :: "LocalStorage \<Rightarrow> string \<Rightarrow> error + LocalStorage" where
  "removeItem ls k = (if ls_throws ls then Inl (Error ''localStorage.removeItem failed'')
                      else Inr (ls\<lparr> ls_items := (ls_items ls)(k := None) \<rparr>))"

text \<open>The agent object: its state, the ledger client it holds, the storage it writes to,
  and the case objects created so far (a reference is an index into \<open>cases\<close>). The
  constructor, which restores a saved state through \<^verbatim>\<open>loadState\<close>, is not modelled: the
  operations below start from any agent.\<close>

record AthenaAgent =
  cases :: "AthenaCase list"
  state :: AgentState
  fraxService :: FraxService
  localStorage :: LocalStorage

definition emptyState :: "nat \<Rightarrow> AgentState" where
  "emptyState now = \<lparr> case_ref = None, evidence = [], escapePlan = None, vaultState = None,
     lastUpdated = now \<rparr>"

definition deref :: "AthenaCase list \<Rightarrow> nat \<Rightarrow> AthenaCase option" where
  "deref cs r = (if r < length cs then Some (cs ! r) else None)"

definition stringifyState :: "AthenaAgent \<Rightarrow> StateJSON" where
  "stringifyState ag =
     \<lparr> json_case = (case case_ref (state ag) of None \<Rightarrow> None | Some r \<Rightarrow> deref (cases ag) r),
       json_evidence = evidence (state ag), json_escapePlan = escapePlan (state ag),
       json_vaultState = vaultState (state ag), json_lastUpdated = lastUpdated (state ag) \<rparr>"

definition saveState :: "AthenaAgent \<Rightarrow> AthenaAgent" where
  "saveState ag =
     (if ls_defined (localStorage ag) then
        (case setItem (localStorage ag) ''athena_agent_state'' (SavedState (stringifyState ag)) of
           Inr ls \<Rightarrow> ag\<lparr> localStorage := ls \<rparr>
         | Inl e \<Rightarrow> ag)
      else ag)"

subsection \<open>Operations of the agent orchestrator\<close>

definition getState :: "AthenaAgent \<Rightarrow> AgentState" where
  "getState ag = state ag"

definition perceiveFinancialState ::
  "AthenaAgent \<Rightarrow> World \<Rightarrow> nat \<Rightarrow> (error + VaultState) \<times> AthenaAgent" where
  "perceiveFinancialState ag w now =
     (case getVaultState (fraxService ag) w of
        Inl e \<Rightarrow> (Inl e, ag)
      | Inr v \<Rightarrow> (Inr v, saveState (ag\<lparr> state := (state ag)\<lparr> vaultState := Some v,
                                                              lastUpdated := now \<rparr> \<rparr>)))"

definition toUpperCase_char :: "char \<Rightarrow> char" where
  "toUpperCase_char c = (let n = (of_char c :: nat) in
                           if 97 \<le> n \<and> n \<le> 122 then char_of (n - 32) else c)"

text \<open>createAnonymousCase; \<open>now\<close> is \<^verbatim>\<open>Date.now()\<close> and \<open>random36\<close> is
  \<^verbatim>\<open>Math.random().toString(36)\<close>.\<close>

definition createAnonymousCase ::
  "AthenaAgent \<Rightarrow> nat \<Rightarrow> string \<Rightarrow> (error + AthenaCase) \<times> AthenaAgent" where
  "createAnonymousCase ag now random36 =
     (let randomPart = map toUpperCase_char (take 6 (drop 2 random36));
          newCase = \<lparr> caseId = ''ATHENA-'' @ toString10 now @ ''-'' @ randomPart,
                      depositAddress = getAddress (fraxService ag),
                      createdAt = now, status = ACTIVE \<rparr>
      in (Inr newCase,
          saveState (ag\<lparr> cases := cases ag @ [newCase],
                         state := (state ag)\<lparr> case_ref := Some (length (cases ag)) \<rparr> \<rparr>)))"

text \<open>The three strategy texts of calculateFreedomBudget. Each step starts with an emoji,
  written here as its UTF-8 bytes.\<close>

definition critical_strategy :: Strategy where
  "critical_strategy =
     \<lparr> step1 = [CHR 0xF0, CHR 0x9F, CHR 0x9A, CHR 0xA8]
                @ '' IMMEDIATE: Document any visible injuries and leave when safe.'',
       step2 = [CHR 0xF0, CHR 0x9F, CHR 0x93, CHR 0x9E]
                @ '' Contact emergency services or trusted ally for extraction.'',
       step3 = [CHR 0xF0, CHR 0x9F, CHR 0x8F, CHR 0x83]
                @ '' Head directly to nearest safe shelter or family.'' \<rparr>"

definition elevated_strategy :: Strategy where
  "elevated_strategy =
     \<lparr> step1 = [CHR 0xF0, CHR 0x9F, CHR 0x93, CHR 0x9D]
                @ '' Start collecting evidence discreetly (photos, messages).'',
       step2 = [CHR 0xF0, CHR 0x9F, CHR 0x92, CHR 0xB0]
                @ '' Build freedom fund gradually - target ready in 2-4 weeks.'',
       step3 = [CHR 0xF0, CHR 0x9F, CHR 0x97, CHR 0xBA, CHR 0xEF, CHR 0xB8, CHR 0x8F]
                @ '' Plan exit route and coordinate with trusted contact.'' \<rparr>"

definition moderate_strategy :: Strategy where
  "moderate_strategy =
     \<lparr> step1 = [CHR 0xF0, CHR 0x9F, CHR 0x92, CHR 0xAD]
                @ '' Assess situation and identify safe communication methods.'',
       step2 = [CHR 0xF0, CHR 0x9F, CHR 0x92, CHR 0xB0]
                @ '' Set up stealth savings - small amounts regularly.'',
       step3 = [CHR 0xF0, CHR 0x9F, CHR 0x93, CHR 0x8B]
                @ '' Create long-term independence plan with support network.'' \<rparr>"

definition calculateFreedomBudget ::
  "AthenaAgent \<Rightarrow> BudgetParams \<Rightarrow> EscapePlan \<times> AthenaAgent" where
  "calculateFreedomBudget ag params =
     (let TRANSPORT_PER_PERSON = 30;
          EMERGENCY_FOOD = 100;
          TEMP_SHELTER_PER_NIGHT = 75;
          NIGHTS_NEEDED = (if riskLevel params \<ge> 8 then 1 else 3);
          transportCost = (dependents params + 1) * TRANSPORT_PER_PERSON;
          shelterCost = (if hasOwnMoney params then 0 else TEMP_SHELTER_PER_NIGHT * NIGHTS_NEEDED);
          totalTarget = transportCost + EMERGENCY_FOOD + shelterCost;
          strat = (if riskLevel params \<ge> 8 then critical_strategy
                   else if riskLevel params \<ge> 5 then elevated_strategy
                   else moderate_strategy);
          plan = \<lparr> isReady = False,
                   freedomGoal = \<lparr> targetAmount = totalTarget,
                                   currentAmount = (case vaultState (state ag) of
                                                      None \<Rightarrow> 0 | Some v \<Rightarrow> totalValueUsd v),
                                   currency = ''USD'' \<rparr>,
                   strategy = strat,
                   plan_riskLevel = riskLevel params,
                   plan_destination = (if destination params = [] then ''Nearest Safe City''
                                       else destination params) \<rparr>
      in (plan, saveState (ag\<lparr> state := (state ag)\<lparr> escapePlan := Some plan \<rparr> \<rparr>)))"

text \<open>generateHash of \<^verbatim>\<open>services/cryptoUtils.ts\<close>: the SHA-256 digest is the browser's
  (\<open>digest\<close>, which may reject), the hexadecimal rendering is the program's.\<close>

definition padStart2 :: "string \<Rightarrow> string" where
  "padStart2 s = (if length s < 2 then replicate (2 - length s) (CHR ''0'') @ s else s)"

definition generateHash :: "(string \<Rightarrow> error + nat list) \<Rightarrow> string \<Rightarrow> error + string" where
  "generateHash digest msg =
     (case digest msg of Inl e \<Rightarrow> Inl e
      | Inr hashArray \<Rightarrow> Inr (''0x'' @ concat (map (\<lambda>b. padStart2 (toString16 b)) hashArray)))"

text \<open>What secureEvidence reads from outside: three readings of \<^verbatim>\<open>Date.now()\<close>, one of
  \<^verbatim>\<open>Math.random().toString(36)\<close>, the digest and \<^verbatim>\<open>JSON.stringify\<close> on the metadata.\<close>

record EvidenceInputs =
  now_hash :: nat
  now_id :: nat
  now_timestamp :: nat
  ev_random36 :: string
  subtle_digest :: "string \<Rightarrow> error + nat list"
  stringifyMetadata :: "Metadata \<Rightarrow> string"

definition secureEvidence ::
  "AthenaAgent \<Rightarrow> World \<Rightarrow> EvidenceInputs \<Rightarrow> string \<Rightarrow> evidence_type \<Rightarrow> Metadata option
     \<Rightarrow> (error + EvidenceRecord) \<times> AthenaAgent" where
  "secureEvidence ag w inp content type md =
     (case generateHash (subtle_digest inp) (content @ toString10 (now_hash inp)) of
        Inl e \<Rightarrow> (Inl e, ag)
      | Inr h \<Rightarrow>
         (let record0 = \<lparr> ev_id = ''EVD-'' @ toString10 (now_id inp) @ ''-''
                                   @ take 4 (drop 2 (ev_random36 inp)),
                          ev_hash = h, ev_type = type, timestamp = now_timestamp inp,
                          ev_txHash = None, ev_status = PENDING, metadata = md \<rparr>
          in case storeEvidenceHash (fraxService ag) w h (map_option (stringifyMetadata inp) md) of
               Inl e \<Rightarrow> (Inl e, ag)
             | Inr result \<Rightarrow>
                (let record1 = (if success result
                                then record0\<lparr> ev_txHash := Some (txHash result), ev_status := ON_CHAIN \<rparr>
                                else record0\<lparr> ev_status := FAILED \<rparr>)
                 in (Inr record1,
                     saveState (ag\<lparr> state := (state ag)\<lparr> evidence := evidence (state ag) @ [record1] \<rparr> \<rparr>)))))"

text \<open>optimizeYield reads the vault twice; \<open>w1\<close>, \<open>now1\<close> are the world and the clock at
  the first reading and the deposit, \<open>w2\<close>, \<open>now2\<close> at the second reading.\<close>

definition optimizeYield ::
  "AthenaAgent \<Rightarrow> World \<Rightarrow> nat \<Rightarrow> World \<Rightarrow> nat
     \<Rightarrow> (error + YieldOptimizationResult) \<times> AthenaAgent" where
  "optimizeYield ag w1 now1 w2 now2 =
     (case perceiveFinancialState ag w1 now1 of
        (Inl e, ag1) \<Rightarrow> (Inl e, ag1)
      | (Inr currentState, ag1) \<Rightarrow>
         (if fraxBalance currentState < 1 then
            (Inr \<lparr> y_success = False, previousBalance = sFraxBalance currentState,
                   newBalance = sFraxBalance currentState, y_apy = apy currentState,
                   projectedMonthlyYield = 0,
                   y_message = ''No idle FRAX available to stake'' \<rparr>, ag1)
          else
            (case depositToVault (fraxService ag1) w1 (fraxBalance currentState) of
               (Inl e, svc) \<Rightarrow> (Inl e, ag1\<lparr> fraxService := svc \<rparr>)
             | (Inr result, svc) \<Rightarrow>
                (if success result then
                   (case perceiveFinancialState (ag1\<lparr> fraxService := svc \<rparr>) w2 now2 of
                      (Inl e, ag2) \<Rightarrow> (Inl e, ag2)
                    | (Inr newState, ag2) \<Rightarrow>
                       (Inr \<lparr> y_success = True, previousBalance = sFraxBalance currentState,
                              newBalance = sFraxBalance newState, y_apy = apy currentState,
                              projectedMonthlyYield =
                                (sFraxBalance newState * (apy currentState / 100)) / 12,
                              y_message = ''Optimized: +'' @ toFixed2 w1 (fraxBalance currentState)
                                          @ '' FRAX staked at '' @ numToString w1 (apy currentState)
                                          @ ''% APY'' \<rparr>, ag2))
                 else
                   (Inr \<lparr> y_success = False, previousBalance = sFraxBalance currentState,
                          newBalance = sFraxBalance currentState, y_apy = apy currentState,
                          projectedMonthlyYield = 0, y_message = tx_message result \<rparr>,
                    ag1\<lparr> fraxService := svc \<rparr>)))))"

text \<open>clearLocalState: the new empty state, then the three \<^verbatim>\<open>removeItem\<close> calls inside a
  \<^verbatim>\<open>try\<close> whose \<^verbatim>\<open>catch\<close> is empty (the first removal that throws skips the others).\<close>

definition clearLocalState :: "AthenaAgent \<Rightarrow> nat \<Rightarrow> (error + unit) \<times> AthenaAgent" where
  "clearLocalState ag now =
     (let ls = localStorage ag;
          ls' = (if ls_defined ls then
                   (case removeItem ls ''athena_agent_state'' of Inl e \<Rightarrow> ls | Inr l1 \<Rightarrow>
                    (case removeItem l1 ''athena_evidence'' of Inl e \<Rightarrow> l1 | Inr l2 \<Rightarrow>
                     (case removeItem l2 ''athena_plan'' of Inl e \<Rightarrow> l2 | Inr l3 \<Rightarrow> l3)))
                 else ls)
      in (Inr (), ag\<lparr> state := emptyState now, localStorage := ls' \<rparr>))"

text \<open>
  AthenaAgent.triggerSOS runs in two parts around its one \<^verbatim>\<open>await\<close>: \<open>sos_mark\<close> is what
  it does before the ledger client is called, \<open>sos_finish\<close> what it does with the outcome
  of that call (\<open>Inl\<close>: the call rejected, and the rejection leaves triggerSOS as it is).

  The call \<^verbatim>\<open>await this.fraxService.triggerSOS(safeContactAddress)\<close> is a \<open>ledger_call\<close>: it
  is made by the agent as it is at that moment, which is its first argument, so that the
  moment of the call can be told from its answer. The promise settles, fulfilled or
  rejected, and leaves the service in some state (\<open>Answers\<close>), or the process dies while
  the call is pending (\<open>Crashes\<close>); then triggerSOS never returns (\<open>None\<close>) and the agent
  stays as it was when the call was made. \<open>ledger_of w\<close> is the call to the FraxService
  that the agent holds, in the world \<open>w\<close>.
\<close>

datatype ledger_answer = Answers "error + SOSResult" FraxService | Crashes

type_synonym ledger_call = "AthenaAgent \<Rightarrow> string \<Rightarrow> ledger_answer"

definition ledger_of :: "World \<Rightarrow> ledger_call" where
  "ledger_of w ag safeContactAddress =
     (case triggerSOS (fraxService ag) w safeContactAddress of
        (outcome, svc) \<Rightarrow> Answers outcome svc)"

definition sos_mark :: "AthenaAgent \<Rightarrow> AthenaAgent" where
  "sos_mark ag =
     (case case_ref (state ag) of
        None \<Rightarrow> ag
      | Some r \<Rightarrow> (if r < length (cases ag)
                   then ag\<lparr> cases := (cases ag)[r := (cases ag ! r)\<lparr> status := EVACUATED \<rparr>] \<rparr>
                   else ag))"

definition sos_finish ::
  "AthenaAgent \<Rightarrow> error + SOSResult \<Rightarrow> nat \<Rightarrow> (error + SOSResult) \<times> AthenaAgent" where
  "sos_finish ag outcome now =
     (case outcome of
        Inl e \<Rightarrow> (Inl e, ag)
      | Inr result \<Rightarrow>
         (if sos_success result then
            (case clearLocalState ag now of
               (Inl e, ag') \<Rightarrow> (Inl e, ag')
             | (Inr _, ag') \<Rightarrow> (Inr result, ag'))
          else (Inr result, ag)))"

definition agent_triggerSOS ::
  "ledger_call \<Rightarrow> AthenaAgent \<Rightarrow> string \<Rightarrow> nat
     \<Rightarrow> (error + SOSResult) option \<times> AthenaAgent" where
  "agent_triggerSOS ledger ag safeContactAddress now =
     (let ag1 = sos_mark ag in
      case ledger ag1 safeContactAddress of
        Crashes \<Rightarrow> (None, ag1)
      | Answers outcome svc \<Rightarrow>
          (case sos_finish (ag1\<lparr> fraxService := svc \<rparr>) outcome now of
             (result, ag2) \<Rightarrow> (Some result, ag2)))"

subsection \<open>Sequences of exposed operations\<close>

datatype operation =
    CreateAnonymousCase nat string
  | SecureEvidence World EvidenceInputs string evidence_type "Metadata option"
  | CalculateFreedomBudget BudgetParams
  | OptimizeYield World nat World nat
  | TriggerSOS World string nat
  | ClearLocalState nat
  | GetState

fun step :: "operation \<Rightarrow> AthenaAgent \<Rightarrow> AthenaAgent" where
  "step (CreateAnonymousCase now random36) ag = snd (createAnonymousCase ag now random36)"
| "step (SecureEvidence w inp content type md) ag = snd (secureEvidence ag w inp content type md)"
| "step (CalculateFreedomBudget params) ag = snd (calculateFreedomBudget ag params)"
| "step (OptimizeYield w1 now1 w2 now2) ag = snd (optimizeYield ag w1 now1 w2 now2)"
| "step (TriggerSOS w safeContactAddress now) ag =
     snd (agent_triggerSOS (ledger_of w) ag safeContactAddress now)"
| "step (ClearLocalState now) ag = snd (clearLocalState ag now)"
| "step GetState ag = ag"

fun run :: "operation list \<Rightarrow> AthenaAgent \<Rightarrow> AthenaAgent" where
  "run [] ag = ag"
| "run (x # xs) ag = run xs (step x ag)"

subsection \<open>Concrete services, worlds and agents\<close>

text \<open>A service built without a private key (nothing is ever connected), and one whose
  connection succeeded.\<close>

definition offline_service :: FraxService where
  "offline_service = \<lparr> provider = None, wallet = None, sFraxContract = None,
     fraxContract = None, usdcContract = None, activeNetwork = FRAXTAL_MAINNET,
     isConnected = False, fallbackStartTime = 0, fallbackBaseBalance = 1250 \<rparr>"

definition live_service :: FraxService where
  "live_service = \<lparr> provider = Some (rpcUrl FRAXTAL_MAINNET),
     wallet = Some ''0x742d35Cc6634C0532925a3b844Bc454e4438f44e'',
     sFraxContract = Some (sFraxAddress FRAXTAL_MAINNET),
     fraxContract = Some (fraxAddress FRAXTAL_MAINNET),
     usdcContract = Some (usdcAddress FRAXTAL_MAINNET), activeNetwork = FRAXTAL_MAINNET,
     isConnected = True, fallbackStartTime = 0, fallbackBaseBalance = 1250 \<rparr>"

text \<open>A decimal string of digits read as an amount with \<open>d\<close> decimals; any other string
  is refused, as \<^verbatim>\<open>parseUnits\<close> refuses \<^verbatim>\<open>"1e-7"\<close>.\<close>

definition parseDigits :: "string \<Rightarrow> nat \<Rightarrow> error + nat" where
  "parseDigits s d =
     (if s \<noteq> [] \<and> (\<forall>c \<in> set s. 48 \<le> (of_char c :: nat) \<and> (of_char c :: nat) \<le> 57)
      then Inr (foldl (\<lambda>a c. 10 * a + ((of_char c :: nat) - 48)) 0 s * 10 ^ d)
      else Inl (Error ''invalid FixedNumber string value''))"

text \<open>A world in which the wallet holds 500 shares worth 510 FRAX, 50 FRAX and 7 USDC, and
  every call succeeds.\<close>

definition calm_world :: World where
  "calm_world = \<lparr>
     sFrax_balanceOf = (\<lambda>_. Inr (500 * 10 ^ 18)),
     frax_balanceOf = (\<lambda>_. Inr (50 * 10 ^ 18)),
     usdc_balanceOf = (\<lambda>_. Inr (7 * 10 ^ 6)),
     sFrax_convertToAssets = (\<lambda>shares. Inr (shares + 10 * 10 ^ 18)),
     sFrax_redeem = (\<lambda>_ _ _. Inr ''0x5e1f00aa11''),
     sFrax_deposit = (\<lambda>_ _. Inr ''0xde9051700b''),
     frax_approve = (\<lambda>_ _. Inr ()),
     frax_transfer = (\<lambda>_ _. Inr ''0x7a4f5e00cc''),
     wallet_sendTransaction = (\<lambda>_ _. Inr ''0xe71de4ce0d''),
     parseUnits = parseDigits,
     numToString = (\<lambda>x. toString10 (nat \<lfloor>x\<rfloor>)),
     toFixed2 = (\<lambda>x. toString10 (nat \<lfloor>x\<rfloor>) @ ''.00''),
     randomUUID = (\<lambda>k. Inr (if k = 0 then ''3f2c1a9e-7b4d-4c61-9a0e-5d8f6b2c1e47''
                              else ''9b1deb4d-3b7d-4bad-9bdd-2b0d7b3dcb6d'')),
     randomDigit = (\<lambda>k. k mod 16) \<rparr>"

text \<open>The same world, except that every balance query is rejected.\<close>

definition unreachable_world :: World where
  "unreachable_world = calm_world\<lparr>
     sFrax_balanceOf := (\<lambda>_. Inl (Error ''network timeout'')),
     frax_balanceOf := (\<lambda>_. Inl (Error ''network timeout'')),
     usdc_balanceOf := (\<lambda>_. Inl (Error ''network timeout'')) \<rparr>"

text \<open>The same world, except that the FRAX transfer reverts.\<close>

definition reverting_world :: World where
  "reverting_world = calm_world\<lparr>
     frax_transfer := (\<lambda>_ _. Inl (Error ''execution reverted'')) \<rparr>"

text \<open>A world whose deposit answers with the hash that the simulated path builds from
  the digits \<open>0, 1, \<dots>, 15, 0, 1, \<dots>\<close>.\<close>

definition echo_hash :: string where
  "echo_hash = ''0x0123456789abcdef0123456789abcdef0123456789abcdef0123456789abcdef''"

definition echo_world :: World where
  "echo_world = calm_world\<lparr> sFrax_deposit := (\<lambda>_ _. Inr echo_hash) \<rparr>"

text \<open>The results of three runs of the SOS protocol to the destination \<^verbatim>\<open>0xABC...\<close>.\<close>

definition live_sos_result :: SOSResult where
  "live_sos_result =
     \<lparr> sos_success = True, liquidatedAmount = 500, transferredAmount = 560,
       destinationAddress = ''0xABC...'', txHashes = [''0x5e1f00aa11'', ''0x7a4f5e00cc''],
       logs = [warning_sign @ '' INITIATING SOS PROTOCOL...'',
               ''Balance detected: 500.00 sFRAX'',
               ''Liquidating sFRAX positions...'',
               ''Liquidation TX: 0x5e1f00aa...'',
               ''Transferring 560.00 FRAX to safe destination...'',
               ''Transfer TX: 0x7a4f5e00...'',
               check_mark @ '' SOS Protocol Complete. Funds secured.''] \<rparr>"

definition reverted_sos_result :: SOSResult where
  "reverted_sos_result =
     \<lparr> sos_success = False, liquidatedAmount = 0, transferredAmount = 0,
       destinationAddress = ''0xABC...'', txHashes = [''0x5e1f00aa11''],
       logs = [warning_sign @ '' INITIATING SOS PROTOCOL...'',
               ''Balance detected: 500.00 sFRAX'',
               ''Liquidating sFRAX positions...'',
               ''Liquidation TX: 0x5e1f00aa...'',
               ''Transferring 560.00 FRAX to safe destination...'',
               cross_mark @ '' Error: execution reverted''] \<rparr>"



text \<open>A ledger call during which the process dies, and one that is rejected.\<close>

definition crashing_ledger :: ledger_call where
  "crashing_ledger = (\<lambda>ag safeContactAddress. Crashes)"

definition rejecting_ledger :: ledger_call where
  "rejecting_ledger = (\<lambda>ag safeContactAddress. Answers (Inl (Error ''ledger unavailable''))
                                                        (fraxService ag))"


text \<open>A world in which the evidence transaction is refused.\<close>

definition refusing_world :: World where
  "refusing_world = calm_world\<lparr>
     wallet_sendTransaction := (\<lambda>_ _. Inl (Error ''insufficient funds for gas'')) \<rparr>"

text \<open>Agents: one just built with an empty storage, one with an active case and one
  piece of evidence on a connected service, and the latter after its case was marked
  evacuated.\<close>

definition empty_storage :: LocalStorage where
  "empty_storage = \<lparr> ls_defined = True, ls_throws = False, ls_items = Map.empty \<rparr>"

definition fresh_agent :: AthenaAgent where
  "fresh_agent = \<lparr> cases = [], state = emptyState 0, fraxService = offline_service,
     localStorage = empty_storage \<rparr>"

definition sample_case :: AthenaCase where
  "sample_case = \<lparr> caseId = ''ATHENA-1000-ABC123'',
     depositAddress = ''0x742d35Cc6634C0532925a3b844Bc454e4438f44e'', createdAt = 1000,
     status = ACTIVE \<rparr>"

definition sample_evidence :: EvidenceRecord where
  "sample_evidence = \<lparr> ev_id = ''EVD-1500-k3f9'', ev_hash = ''0x00ff'', ev_type = TEXT,
     timestamp = 1500, ev_txHash = Some ''0xe71de4ce0d'', ev_status = ON_CHAIN,
     metadata = None \<rparr>"

definition active_agent :: AthenaAgent where
  "active_agent = \<lparr> cases = [sample_case],
     state = \<lparr> case_ref = Some 0, evidence = [sample_evidence], escapePlan = None,
               vaultState = None, lastUpdated = 1500 \<rparr>,
     fraxService = live_service, localStorage = empty_storage \<rparr>"

definition evacuated_agent :: AthenaAgent where
  "evacuated_agent = active_agent\<lparr> cases := [sample_case\<lparr> status := EVACUATED \<rparr>] \<rparr>"

text \<open>The example of the budget calculation, and four inputs at the tier boundaries.\<close>

definition springfield_params :: BudgetParams where
  "springfield_params = \<lparr> dependents = 2, destination = ''Springfield'', hasOwnMoney = False,
     riskLevel = 9 \<rparr>"

definition params_at :: "real \<Rightarrow> BudgetParams" where
  "params_at risk = \<lparr> dependents = 0, destination = [], hasOwnMoney = True, riskLevel = risk \<rparr>"

text \<open>Inputs of one secureEvidence call, and the record it leaves when the storage is
  refused.\<close>

definition sample_inputs :: EvidenceInputs where
  "sample_inputs = \<lparr> now_hash = 2000, now_id = 2000, now_timestamp = 2001,
     ev_random36 = ''0.k3f9x2ab'', subtle_digest = (\<lambda>_. Inr [0, 255]),
     stringifyMetadata = (\<lambda>_. ''{}'') \<rparr>"

definition failed_record :: EvidenceRecord where
  "failed_record = \<lparr> ev_id = ''EVD-2000-k3f9'', ev_hash = ''0x00ff'', ev_type = TEXT,
     timestamp = 2001, ev_txHash = None, ev_status = FAILED, metadata = None \<rparr>"

definition stored_record :: EvidenceRecord where
  "stored_record = \<lparr> ev_id = ''EVD-2000-k3f9'', ev_hash = ''0x00ff'', ev_type = TEXT,
     timestamp = 2001, ev_txHash = Some ''0xe71de4ce0d'', ev_status = ON_CHAIN,
     metadata = None \<rparr>"

section \<open>Properties of the ledger client\<close>

subsection \<open>Reading the vault\<close>

lemma getVaultState_total: "\<exists>v. getVaultState svc w = Inr v"
  by (auto simp: getVaultState_def split: bool.splits option.splits sum.splits)

lemma getVaultState_live_calm:
  "getVaultState live_service calm_world =
     Inr \<lparr> sFraxBalance = 500, sFraxValueInFrax = 510, fraxBalance = 50, usdcBalance = 7,
           totalValueUsd = 567, apy = 54 / 10, isOnline = True, network = ''Fraxtal'' \<rparr>"
  by (simp add: getVaultState_def live_service_def calm_world_def liveVaultRead_def
      fromUnits_def FRAXTAL_MAINNET_def)

lemma getVaultState_live_reverting:
  "getVaultState live_service reverting_world =
     Inr \<lparr> sFraxBalance = 500, sFraxValueInFrax = 510, fraxBalance = 50, usdcBalance = 7,
           totalValueUsd = 567, apy = 54 / 10, isOnline = True, network = ''Fraxtal'' \<rparr>"
  by (simp add: getVaultState_def live_service_def reverting_world_def calm_world_def
      liveVaultRead_def fromUnits_def FRAXTAL_MAINNET_def)

text \<open>
  C2 (as amended). Whenever the ledger client has no live connection (it is not connected,
  or has no wallet or no vault contract, or the live read fails at any of its calls),
  getVaultState does not throw and returns the offline snapshot: the four balances and
  the total value are zero, the connectivity flag is false, the network label is
  \<^verbatim>\<open>Not Connected\<close>, and the yield rate is the display default 5.4 (not zero). Every field
  has a value.
\<close>

theorem getVaultState_offline_snapshot:
  assumes "\<not> (isConnected svc \<and> wallet svc \<noteq> None \<and> sFraxContract svc \<noteq> None)
           \<or> (\<exists>address e. wallet svc = Some address \<and> liveVaultRead svc w address = Inl e)"
  shows "getVaultState svc w =
           Inr \<lparr> sFraxBalance = 0, sFraxValueInFrax = 0, fraxBalance = 0, usdcBalance = 0,
                 totalValueUsd = 0, apy = 54 / 10, isOnline = False,
                 network = ''Not Connected'' \<rparr>"
  using assms
  by (auto simp: getVaultState_def getSimulatedVaultState_def
      split: bool.splits option.splits sum.splits)

theorem getVaultState_offline_snapshot_witness:
  "getVaultState offline_service calm_world =
           Inr \<lparr> sFraxBalance = 0, sFraxValueInFrax = 0, fraxBalance = 0, usdcBalance = 0,
                 totalValueUsd = 0, apy = 54 / 10, isOnline = False,
                 network = ''Not Connected'' \<rparr>
   \<and> liveVaultRead live_service unreachable_world ''0x742d35Cc6634C0532925a3b844Bc454e4438f44e''
        = Inl (Error ''network timeout'')
   \<and> getVaultState live_service unreachable_world =
           Inr \<lparr> sFraxBalance = 0, sFraxValueInFrax = 0, fraxBalance = 0, usdcBalance = 0,
                 totalValueUsd = 0, apy = 54 / 10, isOnline = False,
                 network = ''Not Connected'' \<rparr>"
proof -
  have off: "\<not> isConnected offline_service"
    by (simp add: offline_service_def)
  have rd: "liveVaultRead live_service unreachable_world
              ''0x742d35Cc6634C0532925a3b844Bc454e4438f44e'' = Inl (Error ''network timeout'')"
    by (simp add: liveVaultRead_def unreachable_world_def)
  have wl: "wallet live_service = Some ''0x742d35Cc6634C0532925a3b844Bc454e4438f44e''"
    by (simp add: live_service_def)
  show ?thesis
    using getVaultState_offline_snapshot [of offline_service calm_world]
          getVaultState_offline_snapshot [of live_service unreachable_world] off rd wl
    by blast
qed

text \<open>The claim as it was stated asks for every numeric field of the offline snapshot to
  be zero; the yield rate of the snapshot is 5.4.\<close>

theorem getVaultState_offline_apy_counterexample:
  "getVaultState offline_service calm_world = Inr getSimulatedVaultState
   \<and> apy getSimulatedVaultState = 54 / 10 \<and> apy getSimulatedVaultState \<noteq> 0"
  by (simp add: getVaultState_def offline_service_def getSimulatedVaultState_def)

subsection \<open>The SOS protocol\<close>

lemmas sos_defs = triggerSOS_def sos_try_def sos_liquidate_def sos_transfer_def Let_def
  sos_start_def push_log_def push_tx_def slice0_def fakeTxOfUUID_def
  toString10.simps hexdigits_def parseDigits_def

lemma triggerSOS_live_calm:
  "fst (triggerSOS live_service calm_world ''0xABC...'') = Inr live_sos_result"
  by (simp add: sos_defs getVaultState_live_calm live_sos_result_def)
     (simp add: live_service_def calm_world_def sos_defs)

lemma triggerSOS_live_reverting:
  "fst (triggerSOS live_service reverting_world ''0xABC...'') = Inr reverted_sos_result"
  by (simp add: sos_defs getVaultState_live_reverting reverted_sos_result_def)
     (simp add: live_service_def reverting_world_def calm_world_def sos_defs)

lemma sos_try_Inr:
  "sos_try svc w dest a0 = (Inr (v, amt), a) \<Longrightarrow>
     getVaultState svc w = Inr v \<and> amt = sFraxValueInFrax v + fraxBalance v"
  by (auto simp: sos_try_def Let_def split: sum.splits prod.splits)

text \<open>
  C1. Every call of the ledger client's triggerSOS that returns a result with success true
  returns, for the vault state \<open>v\<close> that its own read produced: a transferred amount equal
  to the staked value in FRAX plus the liquid FRAX balance of \<open>v\<close> (the USDC balance is not
  part of it), a liquidated amount equal to the staked-share balance of \<open>v\<close>, and the
  destination address it was given.
\<close>

theorem triggerSOS_conservation:
  assumes "fst (triggerSOS svc w dest) = Inr r" and "sos_success r"
  shows "\<exists>v. getVaultState svc w = Inr v
           \<and> transferredAmount r = sFraxValueInFrax v + fraxBalance v
           \<and> liquidatedAmount r = sFraxBalance v
           \<and> destinationAddress r = dest"
proof (cases "sos_try svc w dest sos_start")
  case (Pair out a)
  show ?thesis
  proof (cases out)
    case (Inl e)
    with Pair assms show ?thesis by (auto simp: triggerSOS_def)
  next
    case (Inr p)
    obtain v amt where p: "p = (v, amt)" by (cases p)
    from sos_try_Inr [of svc w dest sos_start v amt a] Pair Inr p
    have "getVaultState svc w = Inr v" "amt = sFraxValueInFrax v + fraxBalance v" by auto
    moreover from Pair Inr p assms(1)
    have "r = \<lparr> sos_success = True, liquidatedAmount = sFraxBalance v,
                 transferredAmount = amt, destinationAddress = dest,
                 txHashes = acc_txs a, logs = acc_logs a \<rparr>"
      by (auto simp: triggerSOS_def)
    ultimately show ?thesis by auto
  qed
qed

theorem triggerSOS_conservation_witness:
  "fst (triggerSOS live_service calm_world ''0xABC...'') = Inr live_sos_result
   \<and> sos_success live_sos_result
   \<and> (\<exists>v. getVaultState live_service calm_world = Inr v
         \<and> usdcBalance v = 7
         \<and> transferredAmount live_sos_result = sFraxValueInFrax v + fraxBalance v
         \<and> liquidatedAmount live_sos_result = sFraxBalance v
         \<and> destinationAddress live_sos_result = ''0xABC...'')
   \<and> transferredAmount live_sos_result = 560 \<and> liquidatedAmount live_sos_result = 500"
proof -
  have s: "sos_success live_sos_result" by (simp add: live_sos_result_def)
  from triggerSOS_conservation [OF triggerSOS_live_calm s]
  show ?thesis
    using triggerSOS_live_calm s by (auto simp: getVaultState_live_calm live_sos_result_def)
qed










subsection \<open>Simulated deposit, redeem and transfer\<close>

lemma toString16_digit: "n < 16 \<Longrightarrow> toString16 n = [hexdigits ! n]"
  by (simp add: toString16.simps)

lemma fakeTxHash_format:
  assumes "\<forall>k<64. randomDigit w k < 16"
  shows "length (fakeTxHash w) = 66 \<and> take 2 (fakeTxHash w) = ''0x''
         \<and> set (drop 2 (fakeTxHash w)) \<subseteq> set hexdigits"
proof -
  have eq: "map (\<lambda>k. toString16 (randomDigit w k)) [0..<64]
            = map (\<lambda>k. [hexdigits ! randomDigit w k]) [0..<64]"
    using assms by (intro map_cong) (auto simp: toString16_digit)
  have len: "length (concat (map (\<lambda>k. [hexdigits ! randomDigit w k]) [0..<64])) = 64"
    by (simp add: length_concat comp_def sum_list_triv)
  have hl: "length hexdigits = 16" by (simp add: hexdigits_def)
  have "\<And>k. k < 64 \<Longrightarrow> hexdigits ! randomDigit w k \<in> set hexdigits"
    using assms by (simp add: hl)
  then have sub: "set (concat (map (\<lambda>k. [hexdigits ! randomDigit w k]) [0..<64])) \<subseteq> set hexdigits"
    by auto
  show ?thesis using len sub by (simp add: fakeTxHash_def eq)
qed

lemma fakeTxHash_calm: "fakeTxHash calm_world = echo_hash"
  by (simp add: fakeTxHash_def calm_world_def echo_hash_def upt_rec toString16.simps hexdigits_def)

lemma simulated_deposit_marked:
  "\<exists>r. fst (depositToVault svc w amount) = Inr r \<and>
      (if isConnected svc \<and> sFraxContract svc \<noteq> None \<and> fraxContract svc \<noteq> None
       then take 6 (tx_message r) \<noteq> ''[DEMO]''
       else success r \<and> txHash r = fakeTxHash w \<and> take 6 (tx_message r) = ''[DEMO]''
            \<and> tx_explorerUrl r = None)"
  by (cases "depositLive svc w amount") (simp_all add: depositToVault_def)

lemma simulated_redeem_marked:
  "\<exists>r. fst (redeemFromVault svc w amount) = Inr r \<and>
      (if isConnected svc \<and> sFraxContract svc \<noteq> None
       then take 6 (tx_message r) \<noteq> ''[DEMO]''
       else success r \<and> txHash r = fakeTxHash w \<and> take 6 (tx_message r) = ''[DEMO]''
            \<and> tx_explorerUrl r = None)"
  by (cases "redeemLive svc w amount") (simp_all add: redeemFromVault_def)

lemma simulated_transfer_marked:
  "\<exists>r. fst (transferFrax svc w toAddress amount) = Inr r \<and>
      (if isConnected svc \<and> fraxContract svc \<noteq> None
       then take 6 (tx_message r) \<noteq> ''[DEMO]''
       else success r \<and> txHash r = fakeTxHash w \<and> take 6 (tx_message r) = ''[DEMO]''
            \<and> tx_explorerUrl r = None)"
  by (cases "transferLive w toAddress amount") (simp_all add: transferFrax_def)

text \<open>
  C10 (as amended). Every call of depositToVault, of redeemFromVault and of transferFrax
  returns a result. When no live connection is available the result has success true, no
  explorer URL, a message that starts with the demo marker \<^verbatim>\<open>[DEMO]\<close>, and as transaction
  id the generated string, which has the form of a real transaction id (\<^verbatim>\<open>0x\<close> followed by
  64 hexadecimal digits). On the live path the message never starts with the marker. So
  the marker in the message, not the transaction id, tells a synthesized result from a
  real one.
\<close>

theorem simulated_results_carry_demo_marker:
  "(\<exists>r. fst (depositToVault svc w amount) = Inr r \<and>
      (if isConnected svc \<and> sFraxContract svc \<noteq> None \<and> fraxContract svc \<noteq> None
       then take 6 (tx_message r) \<noteq> ''[DEMO]''
       else success r \<and> txHash r = fakeTxHash w \<and> take 6 (tx_message r) = ''[DEMO]''
            \<and> tx_explorerUrl r = None))
   \<and> (\<exists>r. fst (redeemFromVault svc w amount) = Inr r \<and>
      (if isConnected svc \<and> sFraxContract svc \<noteq> None
       then take 6 (tx_message r) \<noteq> ''[DEMO]''
       else success r \<and> txHash r = fakeTxHash w \<and> take 6 (tx_message r) = ''[DEMO]''
            \<and> tx_explorerUrl r = None))
   \<and> (\<exists>r. fst (transferFrax svc w toAddress amount) = Inr r \<and>
      (if isConnected svc \<and> fraxContract svc \<noteq> None
       then take 6 (tx_message r) \<noteq> ''[DEMO]''
       else success r \<and> txHash r = fakeTxHash w \<and> take 6 (tx_message r) = ''[DEMO]''
            \<and> tx_explorerUrl r = None))
   \<and> ((\<forall>k<64. randomDigit w k < 16) \<longrightarrow>
        length (fakeTxHash w) = 66 \<and> take 2 (fakeTxHash w) = ''0x''
        \<and> set (drop 2 (fakeTxHash w)) \<subseteq> set hexdigits)"
  using simulated_deposit_marked [of svc w amount] simulated_redeem_marked [of svc w amount]
    simulated_transfer_marked [of svc w toAddress amount] fakeTxHash_format [of w]
  by blast

theorem simulated_results_carry_demo_marker_witness:
  "\<not> isConnected offline_service
   \<and> (\<exists>r. fst (depositToVault offline_service calm_world 10) = Inr r \<and> success r
         \<and> txHash r = echo_hash \<and> take 6 (tx_message r) = ''[DEMO]'')
   \<and> (\<exists>r. fst (redeemFromVault offline_service calm_world 10) = Inr r \<and> success r
         \<and> txHash r = echo_hash \<and> take 6 (tx_message r) = ''[DEMO]'')
   \<and> (\<exists>r. fst (transferFrax offline_service calm_world ''0xABC...'' 10) = Inr r \<and> success r
         \<and> txHash r = echo_hash \<and> take 6 (tx_message r) = ''[DEMO]'')
   \<and> length (fakeTxHash calm_world) = 66 \<and> take 2 (fakeTxHash calm_world) = ''0x''
   \<and> set (drop 2 (fakeTxHash calm_world)) \<subseteq> set hexdigits"
proof -
  have d: "\<forall>k<64. randomDigit calm_world k < 16"
    by (simp add: calm_world_def)
  have off: "\<not> isConnected offline_service"
    by (simp add: offline_service_def)
  from simulated_results_carry_demo_marker [of offline_service calm_world 10 "''0xABC...''"]
  show ?thesis
    using d off by (simp add: fakeTxHash_calm) blast
qed

text \<open>The claim as it was stated asks for a generated transaction id that can be told from
  a real one; here the simulated deposit and a live deposit return the same id.\<close>

theorem simulated_txHash_counterexample:
  "fst (depositToVault offline_service echo_world 10) =
     Inr \<lparr> success = True, txHash = echo_hash,
           tx_message = ''[DEMO] Deposited 10 FRAX into sFRAX vault'', tx_explorerUrl = None \<rparr>
   \<and> fst (depositToVault live_service echo_world 10) =
     Inr \<lparr> success = True, txHash = echo_hash,
           tx_message = ''Deposited 10 FRAX into sFRAX vault'',
           tx_explorerUrl = Some (''https://fraxscan.com/tx/'' @ echo_hash) \<rparr>"
proof -
  have f: "fakeTxHash echo_world = echo_hash"
    using fakeTxHash_calm by (simp add: fakeTxHash_def echo_world_def)
  have n: "numToString echo_world 10 = ''10''"
    by (simp add: echo_world_def calm_world_def toString10.simps hexdigits_def)
  have l: "depositLive live_service echo_world 10 = Inr echo_hash"
    by (simp add: depositLive_def n)
       (simp add: echo_world_def calm_world_def parseDigits_def live_service_def)
  show ?thesis
    by (simp add: depositToVault_def f n l)
       (simp add: offline_service_def live_service_def FRAXTAL_MAINNET_def)
qed

section \<open>Properties of the agent orchestrator\<close>

subsection \<open>The budget\<close>

lemma strategies_distinct:
  "critical_strategy \<noteq> elevated_strategy" "critical_strategy \<noteq> moderate_strategy"
  "elevated_strategy \<noteq> moderate_strategy"
  by (simp_all add: critical_strategy_def elevated_strategy_def moderate_strategy_def)

text \<open>
  C4. For every agent and all inputs with a risk level between 1 and 10, the plan that
  calculateFreedomBudget returns has the target amount
  \<open>(dependents + 1) * 30 + 100 + (if hasOwnMoney then 0 else 75 * (if riskLevel \<ge> 8 then 1 else 3))\<close>;
  its strategy is the critical one exactly when the risk level is at least 8, the elevated
  one exactly when it is at least 5 and below 8, the moderate one exactly when it is
  below 5. For 2 dependents, destination Springfield, no money of one's own and risk
  level 9 the target is 265 and the strategy is the critical one.
\<close>

theorem calculateFreedomBudget_target_and_tier:
  assumes "1 \<le> riskLevel p" and "riskLevel p \<le> 10"
  shows "targetAmount (freedomGoal (fst (calculateFreedomBudget ag p)))
           = (dependents p + 1) * 30 + 100
             + (if hasOwnMoney p then 0 else 75 * (if riskLevel p \<ge> 8 then 1 else 3))
         \<and> (strategy (fst (calculateFreedomBudget ag p)) = critical_strategy
              \<longleftrightarrow> riskLevel p \<ge> 8)
         \<and> (strategy (fst (calculateFreedomBudget ag p)) = elevated_strategy
              \<longleftrightarrow> 5 \<le> riskLevel p \<and> riskLevel p < 8)
         \<and> (strategy (fst (calculateFreedomBudget ag p)) = moderate_strategy
              \<longleftrightarrow> riskLevel p < 5)
         \<and> targetAmount (freedomGoal (fst (calculateFreedomBudget ag springfield_params))) = 265
         \<and> strategy (fst (calculateFreedomBudget ag springfield_params)) = critical_strategy"
  using strategies_distinct
  by (auto simp: calculateFreedomBudget_def Let_def springfield_params_def)

theorem calculateFreedomBudget_target_and_tier_witness:
  "targetAmount (freedomGoal (fst (calculateFreedomBudget fresh_agent springfield_params))) = 265
   \<and> strategy (fst (calculateFreedomBudget fresh_agent springfield_params)) = critical_strategy
   \<and> strategy (fst (calculateFreedomBudget fresh_agent (params_at 8))) = critical_strategy
   \<and> strategy (fst (calculateFreedomBudget fresh_agent (params_at 7))) = elevated_strategy
   \<and> strategy (fst (calculateFreedomBudget fresh_agent (params_at 5))) = elevated_strategy
   \<and> strategy (fst (calculateFreedomBudget fresh_agent (params_at 4))) = moderate_strategy"
proof -
  have r9: "1 \<le> riskLevel springfield_params" "riskLevel springfield_params \<le> 10"
    by (simp_all add: springfield_params_def)
  have r: "riskLevel (params_at 8) = 8" "riskLevel (params_at 7) = 7"
    "riskLevel (params_at 5) = 5" "riskLevel (params_at 4) = 4"
    by (simp_all add: params_at_def)
  from calculateFreedomBudget_target_and_tier [OF r9, of fresh_agent]
    calculateFreedomBudget_target_and_tier [of "params_at 8" fresh_agent]
    calculateFreedomBudget_target_and_tier [of "params_at 7" fresh_agent]
    calculateFreedomBudget_target_and_tier [of "params_at 5" fresh_agent]
    calculateFreedomBudget_target_and_tier [of "params_at 4" fresh_agent]
  show ?thesis by (simp add: r)
qed

subsection \<open>Wiping the local state\<close>

text \<open>
  C7 (as amended). Calling clearLocalState twice in a row never throws and leaves an empty
  AgentState both times (no case, no evidence, no escape plan, no vault snapshot); the two
  states agree in every field except the last-update time stamp, which each call sets to
  its own reading of the clock, and the second call changes nothing else in the agent
  (its storage included). This holds for every agent, so also for one that never had a
  case.
\<close>

theorem clearLocalState_twice:
  "fst (clearLocalState ag t1) = Inr ()
   \<and> fst (clearLocalState (snd (clearLocalState ag t1)) t2) = Inr ()
   \<and> state (snd (clearLocalState ag t1))
       = \<lparr> case_ref = None, evidence = [], escapePlan = None, vaultState = None,
           lastUpdated = t1 \<rparr>
   \<and> state (snd (clearLocalState (snd (clearLocalState ag t1)) t2))
       = \<lparr> case_ref = None, evidence = [], escapePlan = None, vaultState = None,
           lastUpdated = t2 \<rparr>
   \<and> snd (clearLocalState (snd (clearLocalState ag t1)) t2)
       = (snd (clearLocalState ag t1))
           \<lparr> state := (state (snd (clearLocalState ag t1)))\<lparr> lastUpdated := t2 \<rparr> \<rparr>"
  by (auto simp: clearLocalState_def Let_def removeItem_def emptyState_def split: sum.splits)

text \<open>The claim as it was stated asks for the same AgentState after both calls; called at
  times 2000 and 3000, the two states differ.\<close>

theorem clearLocalState_twice_counterexample:
  "state (snd (clearLocalState (snd (clearLocalState active_agent 2000)) 3000))
     \<noteq> state (snd (clearLocalState active_agent 2000))"
  by (simp add: clearLocalState_def Let_def emptyState_def)

subsection \<open>The orchestrator's SOS\<close>

lemma triggerSOS_returns: "\<exists>res. fst (triggerSOS svc w dest) = Inr res"
  by (cases "sos_try svc w dest sos_start")
     (auto simp: triggerSOS_def split: sum.splits prod.splits)

lemma triggerSOS_reverting_pair:
  "triggerSOS live_service reverting_world ''0xABC...'' = (Inr reverted_sos_result, live_service)"
  by (simp add: sos_defs getVaultState_live_reverting reverted_sos_result_def)
     (simp add: live_service_def reverting_world_def calm_world_def sos_defs)

lemma triggerSOS_calm_pair:
  "triggerSOS live_service calm_world ''0xABC...''
     = (Inr live_sos_result, live_service\<lparr> fallbackBaseBalance := 0 \<rparr>)"
  by (simp add: sos_defs getVaultState_live_calm live_sos_result_def)
     (simp add: live_service_def calm_world_def sos_defs)

lemma ledger_of_answers: "\<exists>res svc. ledger_of w ag dest = Answers (Inr res) svc"
  using triggerSOS_returns [of "fraxService ag" w dest]
  by (cases "triggerSOS (fraxService ag) w dest") (auto simp: ledger_of_def)

lemma sos_mark_status:
  assumes "case_ref (state ag) = Some r" and "r < length (cases ag)"
  shows "status (cases (sos_mark ag) ! r) = EVACUATED"
  using assms by (simp add: sos_mark_def)

lemma sos_mark_keeps:
  "state (sos_mark ag) = state ag \<and> fraxService (sos_mark ag) = fraxService ag
   \<and> localStorage (sos_mark ag) = localStorage ag
   \<and> length (cases (sos_mark ag)) = length (cases ag)"
  by (simp add: sos_mark_def split: option.splits)

lemma sos_finish_Inr:
  "sos_finish ag (Inr res) now
     = (Inr res, if sos_success res then snd (clearLocalState ag now) else ag)"
  by (simp add: sos_finish_def clearLocalState_def Let_def)

lemma clearLocalState_erases:
  assumes "ls_defined (localStorage ag)" and "\<not> ls_throws (localStorage ag)"
  shows "ls_items (localStorage (snd (clearLocalState ag now))) ''athena_agent_state'' = None
         \<and> ls_items (localStorage (snd (clearLocalState ag now))) ''athena_evidence'' = None
         \<and> ls_items (localStorage (snd (clearLocalState ag now))) ''athena_plan'' = None"
  using assms by (simp add: clearLocalState_def Let_def removeItem_def)

text \<open>
  C5. For every call of the orchestrator's triggerSOS made while a case exists, whatever
  the ledger call does: the agent on which the ledger client is invoked is the agent
  with the status of that case already set to EVACUATED (and with its state and its
  storage as before the call: the mark is not written to the storage), and nothing but
  the answer to the call made by that marked agent enters the outcome. If the process dies during the ledger call, the
  marked agent is what is left; if the ledger call is rejected, the rejection is passed
  on and the marked agent is left. If the ledger call returns a result, the
  orchestrator returns it, and the state of the agent afterwards is the empty state if
  and only if the result has success true: on success the agent is the marked agent
  after clearLocalState, with the persisted copies erased where the storage is available;
  on failure it is the marked agent, so its state (evidence, escape plan, case) is the
  one before the call and the case is EVACUATED. The call to the FraxService always
  returns a result.
\<close>

theorem agent_triggerSOS_marks_before_ledger_call:
  assumes "case_ref (state ag) = Some r" and "r < length (cases ag)"
  shows "status (cases (sos_mark ag) ! r) = EVACUATED
         \<and> state (sos_mark ag) = state ag
         \<and> localStorage (sos_mark ag) = localStorage ag
         \<and> (\<forall>ledger'. ledger' (sos_mark ag) dest = ledger (sos_mark ag) dest \<longrightarrow>
               agent_triggerSOS ledger' ag dest now = agent_triggerSOS ledger ag dest now)
         \<and> (ledger (sos_mark ag) dest = Crashes \<longrightarrow>
               agent_triggerSOS ledger ag dest now = (None, sos_mark ag))
         \<and> (\<forall>e svc. ledger (sos_mark ag) dest = Answers (Inl e) svc \<longrightarrow>
               agent_triggerSOS ledger ag dest now
                 = (Some (Inl e), (sos_mark ag)\<lparr> fraxService := svc \<rparr>))
         \<and> (\<forall>res svc. ledger (sos_mark ag) dest = Answers (Inr res) svc \<longrightarrow>
               fst (agent_triggerSOS ledger ag dest now) = Some (Inr res)
               \<and> (state (snd (agent_triggerSOS ledger ag dest now)) = emptyState now
                    \<longleftrightarrow> sos_success res)
               \<and> (sos_success res \<longrightarrow>
                    snd (agent_triggerSOS ledger ag dest now)
                      = snd (clearLocalState ((sos_mark ag)\<lparr> fraxService := svc \<rparr>) now)
                    \<and> (ls_defined (localStorage ag) \<and> \<not> ls_throws (localStorage ag) \<longrightarrow>
                         ls_items (localStorage (snd (agent_triggerSOS ledger ag dest now)))
                           ''athena_agent_state'' = None
                         \<and> ls_items (localStorage (snd (agent_triggerSOS ledger ag dest now)))
                             ''athena_evidence'' = None
                         \<and> ls_items (localStorage (snd (agent_triggerSOS ledger ag dest now)))
                             ''athena_plan'' = None))
               \<and> (\<not> sos_success res \<longrightarrow>
                    snd (agent_triggerSOS ledger ag dest now)
                      = (sos_mark ag)\<lparr> fraxService := svc \<rparr>
                    \<and> state (snd (agent_triggerSOS ledger ag dest now)) = state ag
                    \<and> status (cases (snd (agent_triggerSOS ledger ag dest now)) ! r)
                        = EVACUATED))
         \<and> (\<exists>res svc. ledger_of w (sos_mark ag) dest = Answers (Inr res) svc)"
proof -
  have m: "status (cases (sos_mark ag) ! r) = EVACUATED"
    using sos_mark_status [OF assms] .
  have s: "state (sos_mark ag) = state ag"
    using sos_mark_keeps [of ag] by simp
  have l: "localStorage (sos_mark ag) = localStorage ag"
    using sos_mark_keeps [of ag] by simp
  have ne: "state ag \<noteq> emptyState now"
    using assms(1) by (auto simp: emptyState_def)
  have A: "\<forall>ledger'. ledger' (sos_mark ag) dest = ledger (sos_mark ag) dest \<longrightarrow>
             agent_triggerSOS ledger' ag dest now = agent_triggerSOS ledger ag dest now"
    by (simp add: agent_triggerSOS_def Let_def)
  have B: "ledger (sos_mark ag) dest = Crashes \<longrightarrow>
             agent_triggerSOS ledger ag dest now = (None, sos_mark ag)"
    by (simp add: agent_triggerSOS_def Let_def)
  have C: "\<forall>e svc. ledger (sos_mark ag) dest = Answers (Inl e) svc \<longrightarrow>
             agent_triggerSOS ledger ag dest now
               = (Some (Inl e), (sos_mark ag)\<lparr> fraxService := svc \<rparr>)"
    by (simp add: agent_triggerSOS_def Let_def sos_finish_def)
  have D: "\<forall>res svc. ledger (sos_mark ag) dest = Answers (Inr res) svc \<longrightarrow>
               fst (agent_triggerSOS ledger ag dest now) = Some (Inr res)
               \<and> (state (snd (agent_triggerSOS ledger ag dest now)) = emptyState now
                    \<longleftrightarrow> sos_success res)
               \<and> (sos_success res \<longrightarrow>
                    snd (agent_triggerSOS ledger ag dest now)
                      = snd (clearLocalState ((sos_mark ag)\<lparr> fraxService := svc \<rparr>) now)
                    \<and> (ls_defined (localStorage ag) \<and> \<not> ls_throws (localStorage ag) \<longrightarrow>
                         ls_items (localStorage (snd (agent_triggerSOS ledger ag dest now)))
                           ''athena_agent_state'' = None
                         \<and> ls_items (localStorage (snd (agent_triggerSOS ledger ag dest now)))
                             ''athena_evidence'' = None
                         \<and> ls_items (localStorage (snd (agent_triggerSOS ledger ag dest now)))
                             ''athena_plan'' = None))
               \<and> (\<not> sos_success res \<longrightarrow>
                    snd (agent_triggerSOS ledger ag dest now)
                      = (sos_mark ag)\<lparr> fraxService := svc \<rparr>
                    \<and> state (snd (agent_triggerSOS ledger ag dest now)) = state ag
                    \<and> status (cases (snd (agent_triggerSOS ledger ag dest now)) ! r)
                        = EVACUATED)"
  proof (intro allI impI)
    fix res svc
    assume a: "ledger (sos_mark ag) dest = Answers (Inr res) svc"
    let ?ag1 = "(sos_mark ag)\<lparr> fraxService := svc \<rparr>"
    have f: "agent_triggerSOS ledger ag dest now
               = (Some (Inr res), if sos_success res then snd (clearLocalState ?ag1 now) else ?ag1)"
      by (simp add: agent_triggerSOS_def Let_def a sos_finish_Inr)
    have e: "state (snd (clearLocalState ?ag1 now)) = emptyState now"
      by (simp add: clearLocalState_def Let_def)
    have x: "ls_defined (localStorage ag) \<and> \<not> ls_throws (localStorage ag) \<longrightarrow>
               ls_items (localStorage (snd (clearLocalState ?ag1 now))) ''athena_agent_state'' = None
               \<and> ls_items (localStorage (snd (clearLocalState ?ag1 now))) ''athena_evidence'' = None
               \<and> ls_items (localStorage (snd (clearLocalState ?ag1 now))) ''athena_plan'' = None"
      using clearLocalState_erases [of ?ag1 now] l by simp
    show "fst (agent_triggerSOS ledger ag dest now) = Some (Inr res)
               \<and> (state (snd (agent_triggerSOS ledger ag dest now)) = emptyState now
                    \<longleftrightarrow> sos_success res)
               \<and> (sos_success res \<longrightarrow>
                    snd (agent_triggerSOS ledger ag dest now)
                      = snd (clearLocalState ((sos_mark ag)\<lparr> fraxService := svc \<rparr>) now)
                    \<and> (ls_defined (localStorage ag) \<and> \<not> ls_throws (localStorage ag) \<longrightarrow>
                         ls_items (localStorage (snd (agent_triggerSOS ledger ag dest now)))
                           ''athena_agent_state'' = None
                         \<and> ls_items (localStorage (snd (agent_triggerSOS ledger ag dest now)))
                             ''athena_evidence'' = None
                         \<and> ls_items (localStorage (snd (agent_triggerSOS ledger ag dest now)))
                             ''athena_plan'' = None))
               \<and> (\<not> sos_success res \<longrightarrow>
                    snd (agent_triggerSOS ledger ag dest now)
                      = (sos_mark ag)\<lparr> fraxService := svc \<rparr>
                    \<and> state (snd (agent_triggerSOS ledger ag dest now)) = state ag
                    \<and> status (cases (snd (agent_triggerSOS ledger ag dest now)) ! r)
                        = EVACUATED)"
      using m s ne e x by (simp add: f)
  qed
  have E: "\<exists>res svc. ledger_of w (sos_mark ag) dest = Answers (Inr res) svc"
    by (rule ledger_of_answers)
  show ?thesis
    by (intro conjI m s l A B C D E)
qed

lemma sos_mark_active_agent: "sos_mark active_agent = evacuated_agent"
  by (simp add: sos_mark_def active_agent_def evacuated_agent_def)

lemma evacuated_agent_service:
  "fraxService evacuated_agent = live_service
   \<and> evacuated_agent\<lparr> fraxService := live_service \<rparr> = evacuated_agent"
  by (simp add: evacuated_agent_def active_agent_def)

lemma ledger_of_reverting_evacuated:
  "ledger_of reverting_world evacuated_agent ''0xABC...''
     = Answers (Inr reverted_sos_result) live_service"
  by (simp add: ledger_of_def evacuated_agent_service triggerSOS_reverting_pair)

lemma ledger_of_calm_evacuated:
  "ledger_of calm_world evacuated_agent ''0xABC...''
     = Answers (Inr live_sos_result) (live_service\<lparr> fallbackBaseBalance := 0 \<rparr>)"
  by (simp add: ledger_of_def evacuated_agent_service triggerSOS_calm_pair)

theorem agent_triggerSOS_marks_before_ledger_call_witness:
  "status (cases evacuated_agent ! 0) = EVACUATED
   \<and> evidence (state evacuated_agent) = [sample_evidence]
   \<and> agent_triggerSOS crashing_ledger active_agent ''0xABC...'' 2000 = (None, evacuated_agent)
   \<and> agent_triggerSOS rejecting_ledger active_agent ''0xABC...'' 2000
       = (Some (Inl (Error ''ledger unavailable'')), evacuated_agent)
   \<and> agent_triggerSOS (ledger_of reverting_world) active_agent ''0xABC...'' 2000
       = (Some (Inr reverted_sos_result), evacuated_agent)
   \<and> fst (agent_triggerSOS (ledger_of calm_world) active_agent ''0xABC...'' 2000)
       = Some (Inr live_sos_result)
   \<and> state (snd (agent_triggerSOS (ledger_of calm_world) active_agent ''0xABC...'' 2000))
       = emptyState 2000"
proof -
  have c: "case_ref (state active_agent) = Some 0" "0 < length (cases active_agent)"
    by (simp_all add: active_agent_def)
  have n: "\<not> sos_success reverted_sos_result" "sos_success live_sos_result"
    by (simp_all add: reverted_sos_result_def live_sos_result_def)
  have ev: "evidence (state evacuated_agent) = [sample_evidence]"
    by (simp add: evacuated_agent_def active_agent_def)
  have st: "status (cases evacuated_agent ! 0) = EVACUATED"
    by (simp add: evacuated_agent_def)
  have k1: "crashing_ledger evacuated_agent ''0xABC...'' = Crashes"
    by (simp add: crashing_ledger_def)
  have k2: "rejecting_ledger evacuated_agent ''0xABC...''
              = Answers (Inl (Error ''ledger unavailable'')) live_service"
    by (simp add: rejecting_ledger_def evacuated_agent_service)
  note th = agent_triggerSOS_marks_before_ledger_call [OF c,
      where dest = "''0xABC...''" and now = 2000 and w = calm_world]
  have w1: "agent_triggerSOS crashing_ledger active_agent ''0xABC...'' 2000
              = (None, evacuated_agent)"
    using th [where ledger = crashing_ledger, THEN conjunct2, THEN conjunct2, THEN conjunct2,
        THEN conjunct2, THEN conjunct1] k1
    by (simp add: sos_mark_active_agent)
  have w2: "agent_triggerSOS rejecting_ledger active_agent ''0xABC...'' 2000
              = (Some (Inl (Error ''ledger unavailable'')), evacuated_agent)"
    using th [where ledger = rejecting_ledger, THEN conjunct2, THEN conjunct2, THEN conjunct2,
        THEN conjunct2, THEN conjunct2, THEN conjunct1] k2
    by (simp add: sos_mark_active_agent evacuated_agent_service)
  have w3: "agent_triggerSOS (ledger_of reverting_world) active_agent ''0xABC...'' 2000
              = (Some (Inr reverted_sos_result), evacuated_agent)"
    using th [where ledger = "ledger_of reverting_world", THEN conjunct2, THEN conjunct2,
        THEN conjunct2, THEN conjunct2, THEN conjunct2, THEN conjunct2, THEN conjunct1]
      ledger_of_reverting_evacuated n(1)
    by (simp add: sos_mark_active_agent evacuated_agent_service prod_eq_iff)
  have w4: "fst (agent_triggerSOS (ledger_of calm_world) active_agent ''0xABC...'' 2000)
              = Some (Inr live_sos_result)"
    using th [where ledger = "ledger_of calm_world", THEN conjunct2, THEN conjunct2,
        THEN conjunct2, THEN conjunct2, THEN conjunct2, THEN conjunct2, THEN conjunct1]
      ledger_of_calm_evacuated n(2)
    by (simp add: sos_mark_active_agent)
  have w5: "state (snd (agent_triggerSOS (ledger_of calm_world) active_agent ''0xABC...'' 2000))
              = emptyState 2000"
    using th [where ledger = "ledger_of calm_world", THEN conjunct2, THEN conjunct2,
        THEN conjunct2, THEN conjunct2, THEN conjunct2, THEN conjunct2, THEN conjunct1]
      ledger_of_calm_evacuated n(2)
    by (simp add: sos_mark_active_agent clearLocalState_def Let_def)
  show ?thesis
    by (intro conjI st ev w1 w2 w3 w4 w5)
qed

subsection \<open>Securing evidence\<close>

lemma storeEvidenceHash_returns: "\<exists>result. storeEvidenceHash svc w h md = Inr result"
  by (auto simp: storeEvidenceHash_def Let_def split: bool.splits option.splits sum.splits)

text \<open>
  C9. For every call of secureEvidence whose content hash was computed: the evidence
  storage call of the ledger client returns a result (it does not throw), secureEvidence
  returns a record and does not throw, and the evidence list afterwards is the list
  before with exactly that record appended. The record has status ON_CHAIN and the
  transaction id of the result when the result reports success, and status FAILED and no
  transaction id when it reports failure; so its status is ON_CHAIN only if a transaction
  id is present.
\<close>

theorem secureEvidence_appends_one_record:
  assumes "generateHash (subtle_digest inp) (content @ toString10 (now_hash inp)) = Inr h"
  shows "\<exists>result rec.
           storeEvidenceHash (fraxService ag) w h (map_option (stringifyMetadata inp) md)
             = Inr result
         \<and> fst (secureEvidence ag w inp content type md) = Inr rec
         \<and> evidence (state (snd (secureEvidence ag w inp content type md)))
             = evidence (state ag) @ [rec]
         \<and> ev_hash rec = h
         \<and> (if success result
             then ev_status rec = ON_CHAIN \<and> ev_txHash rec = Some (txHash result)
             else ev_status rec = FAILED \<and> ev_txHash rec = None)
         \<and> (ev_status rec = ON_CHAIN \<longrightarrow> ev_txHash rec \<noteq> None)"
proof -
  obtain result where r:
    "storeEvidenceHash (fraxService ag) w h (map_option (stringifyMetadata inp) md) = Inr result"
    using storeEvidenceHash_returns by blast
  show ?thesis
    using assms r by (auto simp: secureEvidence_def Let_def saveState_def setItem_def)
qed

lemma generateHash_sample:
  "generateHash (subtle_digest sample_inputs) (''note'' @ toString10 (now_hash sample_inputs))
     = Inr ''0x00ff''"
  by (simp add: generateHash_def sample_inputs_def padStart2_def toString16.simps hexdigits_def)

lemma storeEvidenceHash_refused:
  "storeEvidenceHash live_service refusing_world h None
     = Inr \<lparr> success = False, txHash = [],
             tx_message = ''Failed to store evidence: insufficient funds for gas'',
             tx_explorerUrl = None \<rparr>"
  by (simp add: storeEvidenceHash_def Let_def live_service_def refusing_world_def)

lemma storeEvidenceHash_calm:
  "storeEvidenceHash live_service calm_world h None
     = Inr \<lparr> success = True, txHash = ''0xe71de4ce0d'',
             tx_message = ''Evidence hash stored on-chain'',
             tx_explorerUrl = Some ''https://fraxscan.com/tx/0xe71de4ce0d'' \<rparr>"
  by (simp add: storeEvidenceHash_def Let_def live_service_def calm_world_def
      FRAXTAL_MAINNET_def)

theorem secureEvidence_appends_one_record_witness:
  "generateHash (subtle_digest sample_inputs) (''note'' @ toString10 (now_hash sample_inputs))
     = Inr ''0x00ff''
   \<and> fst (secureEvidence active_agent refusing_world sample_inputs ''note'' TEXT None)
       = Inr failed_record
   \<and> evidence (state (snd (secureEvidence active_agent refusing_world sample_inputs
                              ''note'' TEXT None)))
       = [sample_evidence, failed_record]
   \<and> fst (secureEvidence active_agent calm_world sample_inputs ''note'' TEXT None)
       = Inr stored_record"
proof -
  have f: "fraxService active_agent = live_service"
    by (simp add: active_agent_def)
  have e: "evidence (state active_agent) = [sample_evidence]"
    by (simp add: active_agent_def)
  have a1: "fst (secureEvidence active_agent refusing_world sample_inputs ''note'' TEXT None)
              = Inr failed_record"
    by (simp add: secureEvidence_def Let_def sample_inputs_def generateHash_def padStart2_def
        toString16.simps toString10.simps hexdigits_def f storeEvidenceHash_refused
        failed_record_def)
  have a3: "fst (secureEvidence active_agent calm_world sample_inputs ''note'' TEXT None)
              = Inr stored_record"
    by (simp add: secureEvidence_def Let_def sample_inputs_def generateHash_def padStart2_def
        toString16.simps toString10.simps hexdigits_def f storeEvidenceHash_calm
        stored_record_def)
  from secureEvidence_appends_one_record [OF generateHash_sample,
      of active_agent refusing_world None TEXT]
  obtain rec where
    fr: "fst (secureEvidence active_agent refusing_world sample_inputs ''note'' TEXT None)
           = Inr rec"
    and ev: "evidence (state (snd (secureEvidence active_agent refusing_world sample_inputs
                                     ''note'' TEXT None)))
               = evidence (state active_agent) @ [rec]"
    by blast
  have "rec = failed_record"
    using fr a1 by simp
  with ev e have a2:
    "evidence (state (snd (secureEvidence active_agent refusing_world sample_inputs
                             ''note'' TEXT None)))
       = [sample_evidence, failed_record]"
    by simp
  show ?thesis
    by (intro conjI generateHash_sample a1 a2 a3)
qed

subsection \<open>Case objects under sequences of operations\<close>

lemma cases_saveState [simp]: "cases (saveState ag) = cases ag"
  by (simp add: saveState_def split: sum.splits)

lemma cases_perceive [simp]: "cases (snd (perceiveFinancialState ag w now)) = cases ag"
  by (simp add: perceiveFinancialState_def split: sum.splits)

lemma cases_clear [simp]: "cases (snd (clearLocalState ag now)) = cases ag"
  by (simp add: clearLocalState_def Let_def)

lemma cases_secureEvidence [simp]:
  "cases (snd (secureEvidence ag w inp content type md)) = cases ag"
  by (simp add: secureEvidence_def Let_def split: sum.splits)

lemma cases_budget [simp]: "cases (snd (calculateFreedomBudget ag p)) = cases ag"
  by (simp add: calculateFreedomBudget_def Let_def)

lemma cases_optimizeYield [simp]: "cases (snd (optimizeYield ag w1 n1 w2 n2)) = cases ag"
proof (cases "perceiveFinancialState ag w1 n1")
  case (Pair out ag1)
  then have c1: "cases ag1 = cases ag"
    using cases_perceive [of ag w1 n1] by simp
  show ?thesis
  proof (cases out)
    case (Inl e)
    with Pair c1 show ?thesis by (simp add: optimizeYield_def)
  next
    case (Inr cur)
    show ?thesis
    proof (cases "depositToVault (fraxService ag1) w1 (fraxBalance cur)")
      case (Pair dout svc)
      have c2: "cases (snd (perceiveFinancialState (ag1\<lparr>fraxService := svc\<rparr>) w2 n2)) = cases ag"
        using c1 by simp
      show ?thesis
        using \<open>perceiveFinancialState ag w1 n1 = (out, ag1)\<close> Inr Pair c1 c2
        by (cases dout; cases "perceiveFinancialState (ag1\<lparr>fraxService := svc\<rparr>) w2 n2")
           (auto simp: optimizeYield_def split: sum.splits)
    qed
  qed
qed

lemma cases_create:
  "\<exists>c. cases (snd (createAnonymousCase ag now r36)) = cases ag @ [c]"
  by (simp add: createAnonymousCase_def Let_def)

lemma cases_sos_mark:
  "cases (sos_mark ag) = cases ag
   \<or> (\<exists>r < length (cases ag). cases (sos_mark ag)
          = (cases ag)[r := (cases ag ! r)\<lparr>status := EVACUATED\<rparr>])"
  by (auto simp: sos_mark_def split: option.splits)

lemma cases_sos_finish [simp]: "cases (snd (sos_finish ag outcome now)) = cases ag"
  by (cases outcome) (auto simp: sos_finish_def clearLocalState_def Let_def)

lemma cases_agent_triggerSOS:
  "cases (snd (agent_triggerSOS ledger ag dest now)) = cases (sos_mark ag)"
proof (cases "ledger (sos_mark ag) dest")
  case Crashes
  then show ?thesis by (simp add: agent_triggerSOS_def Let_def)
next
  case (Answers outcome svc)
  obtain res ag2 where
    f: "sos_finish ((sos_mark ag)\<lparr> fraxService := svc \<rparr>) outcome now = (res, ag2)"
    by (cases "sos_finish ((sos_mark ag)\<lparr> fraxService := svc \<rparr>) outcome now")
  from cases_sos_finish [of "(sos_mark ag)\<lparr> fraxService := svc \<rparr>" outcome now] f
  have "cases ag2 = cases (sos_mark ag)" by simp
  with Answers f show ?thesis by (simp add: agent_triggerSOS_def Let_def)
qed

text \<open>One operation leaves every existing case object as it is or marks it evacuated.\<close>

lemma step_case_forward:
  assumes "r < length (cases ag)"
  shows "r < length (cases (step x ag))
         \<and> (cases (step x ag) ! r = cases ag ! r
            \<or> cases (step x ag) ! r = (cases ag ! r)\<lparr>status := EVACUATED\<rparr>)"
proof (cases x)
  case (CreateAnonymousCase now r36)
  obtain c where "cases (snd (createAnonymousCase ag now r36)) = cases ag @ [c]"
    using cases_create by blast
  with assms CreateAnonymousCase show ?thesis by (simp add: nth_append)
next
  case (TriggerSOS w dest now)
  from cases_sos_mark [of ag] assms TriggerSOS show ?thesis
    by (auto simp: cases_agent_triggerSOS nth_list_update)
qed (use assms in simp_all)

lemma run_case_forward:
  assumes "r < length (cases ag)"
  shows "r < length (cases (run ops ag))
         \<and> (cases (run ops ag) ! r = cases ag ! r
            \<or> cases (run ops ag) ! r = (cases ag ! r)\<lparr>status := EVACUATED\<rparr>)"
  using assms
proof (induction ops arbitrary: ag)
  case Nil
  then show ?case by simp
next
  case (Cons x xs)
  from step_case_forward [OF Cons.prems, of x]
  have l: "r < length (cases (step x ag))"
    and s: "cases (step x ag) ! r = cases ag ! r
            \<or> cases (step x ag) ! r = (cases ag ! r)\<lparr>status := EVACUATED\<rparr>"
    by simp_all
  from Cons.IH [OF l] s show ?case by auto
qed

text \<open>
  C6. Let \<open>r\<close> be a case object of the agent. After every sequence of the exposed
  operations (createAnonymousCase, secureEvidence, calculateFreedomBudget, optimizeYield,
  triggerSOS, clearLocalState, getState, with any answers of the outside world) the
  object still exists; if its status was EVACUATED it is EVACUATED; if its status is
  ACTIVE afterwards it was ACTIVE before; its status is unchanged or has become
  EVACUATED; and its case id, deposit address and creation time are unchanged. A later
  createAnonymousCase makes a new object and leaves this one as it is.
\<close>

theorem case_status_never_goes_back:
  assumes "r < length (cases ag)"
  shows "r < length (cases (run ops ag))
         \<and> (status (cases ag ! r) = EVACUATED \<longrightarrow> status (cases (run ops ag) ! r) = EVACUATED)
         \<and> (status (cases (run ops ag) ! r) = ACTIVE \<longrightarrow> status (cases ag ! r) = ACTIVE)
         \<and> (status (cases (run ops ag) ! r) = status (cases ag ! r)
            \<or> status (cases (run ops ag) ! r) = EVACUATED)
         \<and> caseId (cases (run ops ag) ! r) = caseId (cases ag ! r)
         \<and> depositAddress (cases (run ops ag) ! r) = depositAddress (cases ag ! r)
         \<and> createdAt (cases (run ops ag) ! r) = createdAt (cases ag ! r)"
  using run_case_forward [OF assms, of ops] by auto

theorem case_status_never_goes_back_witness:
  "step (TriggerSOS reverting_world ''0xABC...'' 2000) active_agent = evacuated_agent
   \<and> 0 < length (cases evacuated_agent)
   \<and> status (cases evacuated_agent ! 0) = EVACUATED
   \<and> status (cases (run [CreateAnonymousCase 3000 ''0.k3f9x2ab'', ClearLocalState 4000,
                          GetState] evacuated_agent) ! 0) = EVACUATED
   \<and> length (cases (run [CreateAnonymousCase 3000 ''0.k3f9x2ab'', ClearLocalState 4000,
                          GetState] evacuated_agent)) = 2
   \<and> status (cases (run [CreateAnonymousCase 3000 ''0.k3f9x2ab'', ClearLocalState 4000,
                          GetState] evacuated_agent) ! 1) = ACTIVE"
proof -
  have l: "0 < length (cases evacuated_agent)"
    by (simp add: evacuated_agent_def)
  have e: "status (cases evacuated_agent ! 0) = EVACUATED"
    by (simp add: evacuated_agent_def)
  have s: "step (TriggerSOS reverting_world ''0xABC...'' 2000) active_agent = evacuated_agent"
  proof -
    have "\<not> sos_success reverted_sos_result"
      by (simp add: reverted_sos_result_def)
    then show ?thesis
      by (simp add: agent_triggerSOS_def Let_def sos_mark_active_agent
          ledger_of_reverting_evacuated sos_finish_Inr evacuated_agent_service)
  qed
  have c: "cases (run [CreateAnonymousCase 3000 ''0.k3f9x2ab'', ClearLocalState 4000,
                       GetState] evacuated_agent)
           = [sample_case\<lparr> status := EVACUATED \<rparr>,
              \<lparr> caseId = ''ATHENA-'' @ toString10 3000 @ ''-''
                         @ map toUpperCase_char ''k3f9x2'',
                depositAddress = ''0x742d35Cc6634C0532925a3b844Bc454e4438f44e'',
                createdAt = 3000, status = ACTIVE \<rparr>]"
    by (simp add: createAnonymousCase_def Let_def evacuated_agent_def active_agent_def
        getAddress_def live_service_def)
  from case_status_never_goes_back [OF l,
      of "[CreateAnonymousCase 3000 ''0.k3f9x2ab'', ClearLocalState 4000, GetState]"] e
  have k: "status (cases (run [CreateAnonymousCase 3000 ''0.k3f9x2ab'', ClearLocalState 4000,
                               GetState] evacuated_agent) ! 0) = EVACUATED"
    by blast
  have n: "length (cases (run [CreateAnonymousCase 3000 ''0.k3f9x2ab'', ClearLocalState 4000,
                               GetState] evacuated_agent)) = 2"
    by (simp only: c) simp
  have a: "status (cases (run [CreateAnonymousCase 3000 ''0.k3f9x2ab'', ClearLocalState 4000,
                               GetState] evacuated_agent) ! 1) = ACTIVE"
    by (simp only: c) simp
  show ?thesis
    by (intro conjI s l e k n a)
qed

end
